theory Spec2Isabelle
  imports Complex_Main
begin

section \<open>JavaScript values used by the scraper\<close>

text \<open>
  A JavaScript string is a sequence of UTF-16 code units; it is modelled as a list of
  natural numbers, so that \<open>substr(0, 3)\<close> and \<open>length\<close> count what the source counts
  (the October prefix written with the Polish letter z-acute is three code units, the
  last one 378). \<open>str\<close> turns an ASCII literal of the source into such a list.
\<close>

type_synonym jsstring = "nat list"

definition str :: "string \<Rightarrow> jsstring" where
  "str s = map of_char s"

text \<open>\<open>'' + i\<close> for a non-negative integer \<open>i\<close>: its decimal digits.\<close>

function showNat :: "nat \<Rightarrow> jsstring" where
  "showNat n = (if n < 10 then [48 + n] else showNat (n div 10) @ [48 + n mod 10])"
  by pat_completeness auto
termination
  by (relation "measure id") auto

declare showNat.simps [simp del]

text \<open>
  The characters \<open>String.prototype.trim\<close>, \<open>parseInt\<close> and \<open>Number\<close> skip: ECMAScript's
  WhiteSpace and LineTerminator code points.
\<close>

definition isStrWhiteSpaceChar :: "nat \<Rightarrow> bool" where
  "isStrWhiteSpaceChar c =
     (c = 9 \<or> c = 10 \<or> c = 11 \<or> c = 12 \<or> c = 13 \<or> c = 32 \<or> c = 160 \<or> c = 5760
      \<or> (8192 \<le> c \<and> c \<le> 8202) \<or> c = 8232 \<or> c = 8233 \<or> c = 8239 \<or> c = 8287
      \<or> c = 12288 \<or> c = 65279)"

definition trimStart :: "jsstring \<Rightarrow> jsstring" where
  "trimStart s = dropWhile isStrWhiteSpaceChar s"

definition trim :: "jsstring \<Rightarrow> jsstring" where
  "trim s = rev (dropWhile isStrWhiteSpaceChar (rev (dropWhile isStrWhiteSpaceChar s)))"

definition isDigit :: "nat \<Rightarrow> bool" where
  "isDigit c = (48 \<le> c \<and> c \<le> 57)"

definition digitsValue :: "jsstring \<Rightarrow> nat" where
  "digitsValue ds = foldl (\<lambda>a c. 10 * a + (c - 48)) 0 ds"

text \<open>
  A JavaScript number: \<open>NaN\<close>, the two infinities (\<open>Infinity True\<close> is the negative one),
  or a finite double, kept as the rational it stands for (the sign of zero is dropped:
  no check of the scraper tells \<open>-0\<close> from \<open>0\<close>).
\<close>

datatype jsnum = NaN | Infinity bool | Num rat

definition isNaN :: "jsnum \<Rightarrow> bool" where
  "isNaN x = (x = NaN)"

text \<open>
  The Number value for a mathematical value (IEEE 754 binary64, round to nearest, ties to
  even): a value \<open>a\<close> with \<open>2 ^ k \<le> a < 2 ^ (k + 1)\<close> is rounded to a multiple of
  \<open>2 ^ (k - 52)\<close>, and of \<open>2 ^ - 1074\<close> in the subnormal range; a result of \<open>2 ^ 1024\<close> or
  more is infinite. \<open>bitLength n\<close> is the number of binary digits of \<open>n\<close>, \<open>floorLog2 q\<close> the
  \<open>k\<close> above for a positive \<open>q\<close>.
\<close>

function bitLength :: "nat \<Rightarrow> nat" where
  "bitLength n = (if n = 0 then 0 else bitLength (n div 2) + 1)"
  by pat_completeness auto
termination
  by (relation "measure id") auto

declare bitLength.simps [simp del]

definition floorLog2 :: "rat \<Rightarrow> int" where
  "floorLog2 q =
     (if 1 \<le> q then int (bitLength (nat \<lfloor>q\<rfloor>)) - 1
      else - int (bitLength (nat (\<lceil>1 / q\<rceil> - 1))))"

definition pow2 :: "int \<Rightarrow> rat" where
  "pow2 e = (if 0 \<le> e then 2 ^ nat e else 1 / 2 ^ nat (- e))"

definition roundHalfEven :: "rat \<Rightarrow> int" where
  "roundHalfEven x =
     (let f = \<lfloor>x\<rfloor>; r = x - of_int f
      in if r < 1 / 2 then f else if 1 / 2 < r then f + 1 else if even f then f else f + 1)"

definition numberValue :: "rat \<Rightarrow> jsnum" where
  "numberValue x =
     (if x = 0 then Num 0
      else (let a = \<bar>x\<bar>;
                e = max (floorLog2 a - 52) (- 1074);
                v = of_int (roundHalfEven (a / pow2 e)) * pow2 e
            in if 2 ^ 1024 \<le> v then Infinity (x < 0)
               else Num (if x < 0 then - v else v)))"

text \<open>
  \<open>parseInt(s, 10)\<close>: leading white space, an optional sign, the longest run of digits,
  and the Number value of that integer.
\<close>

definition parseInt10 :: "jsstring \<Rightarrow> jsnum" where
  "parseInt10 input =
     (let s = trimStart input;
          neg = (s \<noteq> [] \<and> hd s = 45);
          s1 = (if s \<noteq> [] \<and> (hd s = 45 \<or> hd s = 43) then tl s else s);
          z = takeWhile isDigit s1
      in if z = [] then NaN
         else numberValue ((if neg then - 1 else 1) * of_nat (digitsValue z)))"

text \<open>
  \<open>Number(s)\<close>, the unary plus of the source (ECMAScript StringToNumber): the trimmed
  string is empty (zero), a binary, octal or hexadecimal integer literal, or a signed
  decimal literal with optional fraction and exponent, or \<open>Infinity\<close>; anything else
  is \<open>NaN\<close>. The result is the Number value of the literal's mathematical value (for a
  literal of more than 20 significant digits ECMAScript also allows the value of the
  literal cut after the 20th digit; the correctly rounded value is taken here, as V8
  gives it).
\<close>

definition radixDigit :: "nat \<Rightarrow> nat \<Rightarrow> nat option" where
  "radixDigit r c =
     (let v = (if 48 \<le> c \<and> c \<le> 57 then c - 48
               else if 97 \<le> c \<and> c \<le> 102 then c - 87
               else if 65 \<le> c \<and> c \<le> 70 then c - 55
               else r)
      in if v < r then Some v else None)"

definition radixValue :: "nat \<Rightarrow> jsstring \<Rightarrow> jsnum" where
  "radixValue r ds =
     (if ds \<noteq> [] \<and> (\<forall>c \<in> set ds. radixDigit r c \<noteq> None)
      then numberValue (of_nat (foldl (\<lambda>a c. r * a + the (radixDigit r c)) 0 ds))
      else NaN)"

definition exponentPart :: "jsstring \<Rightarrow> int option" where
  "exponentPart s =
     (if s = [] then Some 0
      else if hd s = 101 \<or> hd s = 69 then
        (let r = tl s;
             neg = (r \<noteq> [] \<and> hd r = 45);
             ds = (if r \<noteq> [] \<and> (hd r = 45 \<or> hd r = 43) then tl r else r)
         in if ds \<noteq> [] \<and> (\<forall>c \<in> set ds. isDigit c)
            then Some ((if neg then - 1 else 1) * int (digitsValue ds))
            else None)
      else None)"

definition strUnsignedDecimalLiteral :: "jsstring \<Rightarrow> jsnum" where
  "strUnsignedDecimalLiteral s =
     (if s = str ''Infinity'' then Infinity False
      else
        (let ip = takeWhile isDigit s;
             r1 = dropWhile isDigit s;
             hasDot = (r1 \<noteq> [] \<and> hd r1 = 46);
             fp = (if hasDot then takeWhile isDigit (tl r1) else []);
             r2 = (if hasDot then dropWhile isDigit (tl r1) else r1)
         in if ip = [] \<and> fp = [] then NaN
            else (case exponentPart r2 of
                    None \<Rightarrow> NaN
                  | Some e \<Rightarrow>
                      numberValue
                        ((of_nat (digitsValue ip)
                          + of_nat (digitsValue fp) / 10 ^ length fp)
                         * (if 0 \<le> e then 10 ^ nat e else 1 / 10 ^ nat (- e))))))"

definition negate :: "jsnum \<Rightarrow> jsnum" where
  "negate x = (case x of NaN \<Rightarrow> NaN | Infinity b \<Rightarrow> Infinity (\<not> b) | Num q \<Rightarrow> Num (- q))"

definition toNumber :: "jsstring \<Rightarrow> jsnum" where
  "toNumber input =
     (let t = trim input in
      if t = [] then Num 0
      else if take 2 t = str ''0x'' \<or> take 2 t = str ''0X'' then radixValue 16 (drop 2 t)
      else if take 2 t = str ''0o'' \<or> take 2 t = str ''0O'' then radixValue 8 (drop 2 t)
      else if take 2 t = str ''0b'' \<or> take 2 t = str ''0B'' then radixValue 2 (drop 2 t)
      else if hd t = 45 then negate (strUnsignedDecimalLiteral (tl t))
      else if hd t = 43 then strUnsignedDecimalLiteral (tl t)
      else strUnsignedDecimalLiteral t)"

text \<open>
  An argument that may be \<open>undefined\<close> is an option. \<open>parseInt(undefined)\<close> parses the
  string \<open>undefined\<close>; \<open>+undefined\<close> is \<open>NaN\<close>.
\<close>

definition parseIntArg :: "jsstring option \<Rightarrow> jsnum" where
  "parseIntArg a = (case a of None \<Rightarrow> parseInt10 (str ''undefined'') | Some s \<Rightarrow> parseInt10 s)"

definition toNumberArg :: "jsstring option \<Rightarrow> jsnum" where
  "toNumberArg a = (case a of None \<Rightarrow> NaN | Some s \<Rightarrow> toNumber s)"

definition toStringArg :: "jsstring option \<Rightarrow> jsstring" where
  "toStringArg a = (case a of None \<Rightarrow> str ''undefined'' | Some s \<Rightarrow> s)"

text \<open>\<open>s.split(sep)\<close> for a one-character separator, and \<open>arr[i]\<close> (undefined out of range).\<close>

fun splitOn :: "nat \<Rightarrow> jsstring \<Rightarrow> jsstring list" where
  "splitOn sep [] = [[]]"
| "splitOn sep (c # cs) =
     (if c = sep then [] # splitOn sep cs
      else (case splitOn sep cs of
              [] \<Rightarrow> [[c]]
            | seg # segs \<Rightarrow> (c # seg) # segs))"

definition elemAt :: "'a list \<Rightarrow> nat \<Rightarrow> 'a option" where
  "elemAt xs i = (if i < length xs then Some (xs ! i) else None)"

text \<open>\<open>/(dzisiaj|wczoraj)/.test(s)\<close> is a search for either word anywhere in \<open>s\<close>.\<close>

fun containsStr :: "jsstring \<Rightarrow> jsstring \<Rightarrow> bool" where
  "containsStr pat [] = (pat = [])"
| "containsStr pat (c # cs) = (take (length pat) (c # cs) = pat \<or> containsStr pat cs)"

text \<open>
  A \<open>Date\<close> object is kept as the arguments of its constructor
  \<open>new Date(year, monthIndex, day, hours, minutes)\<close>. What \<open>getTime()\<close> makes of them
  (local time zone, overflowing fields) belongs to the runtime and is a field of the
  environment below; \<open>utcTime\<close> is ECMAScript's MakeDay/MakeDate for a runtime whose local
  time is UTC. Time values are integers of milliseconds: a \<open>Date\<close> outside the range of
  the runtime, whose time value is \<open>NaN\<close>, is not modelled.
\<close>

datatype jsdate = Date (dateYear: int) (dateMonth: int) (dateDay: int) (dateHours: int) (dateMinutes: int)

definition dayFromYear :: "int \<Rightarrow> int" where
  "dayFromYear y =
     365 * (y - 1970) + (y - 1969) div 4 - (y - 1901) div 100 + (y - 1601) div 400"

definition inLeapYear :: "int \<Rightarrow> bool" where
  "inLeapYear y = (y mod 4 = 0 \<and> (y mod 100 \<noteq> 0 \<or> y mod 400 = 0))"

definition daysBeforeMonth :: "int \<Rightarrow> int \<Rightarrow> int" where
  "daysBeforeMonth y m =
     [0, 31, 59, 90, 120, 151, 181, 212, 243, 273, 304, 334] ! nat m
     + (if 2 \<le> m \<and> inLeapYear y then 1 else 0)"

definition utcTime :: "jsdate \<Rightarrow> int" where
  "utcTime d =
     (let y = (if 0 \<le> dateYear d \<and> dateYear d \<le> 99 then 1900 + dateYear d else dateYear d);
          ym = y + dateMonth d div 12;
          mn = dateMonth d mod 12;
          day = dayFromYear ym + daysBeforeMonth ym mn + dateDay d - 1
      in day * 86400000 + dateHours d * 3600000 + dateMinutes d * 60000)"

text \<open>
  The environment of one page parse: the clock (\<open>Date.now()\<close> and the local calendar
  fields of \<open>new Date()\<close>, read once), the runtime's \<open>getTime\<close>, and \<open>toLocaleString\<close>
  with the format parameters of the configuration (\<open>True\<close> selects
  \<open>config.dateTimeFormatParams\<close>, \<open>False\<close> \<open>config.dateFormatParams\<close>).
\<close>

record env =
  nowMs :: int
  nowFullYear :: int
  nowMonth :: int
  nowDate :: int
  getTime :: "jsdate \<Rightarrow> int"
  toLocaleString :: "bool \<Rightarrow> jsdate \<Rightarrow> jsstring"

text \<open>
  Modelled from the spec: \<open>DAY_MS\<close> of \<open>src/constants\<close>, which is not among the sources;
  the spec gives the window as 24 hours.
\<close>

definition DAY_MS :: int where
  "DAY_MS = 24 * 60 * 60 * 1000"

text \<open>
  The errors of the program: a TypeError of the runtime, \<open>Error('Unrecognized month
  prefix')\<close>, the error \<open>loadPage\<close> throws (with the message of its cause), the
  \<open>Scraping exceeded\<close> error that \<open>getPage\<close> constructs, and a failure of the file system.
\<close>

datatype error =
    TypeError
  | UnrecognizedMonthPrefix
  | LoadError jsstring
  | ScrapingExceeded
  | FileError

section \<open>The Olx scraper\<close>

subsection \<open>Pagination\<close>

record olx_ad =
  dtText :: jsstring
  titleText :: jsstring
  href :: "jsstring option"
  priceText :: jsstring
  imgSrc :: "jsstring option"

text \<open>
  The parsed page, as far as the selectors of the scraper read it: the pager links
  matched by \<open>div.pager.rel.clr a.block.br3.brc8.large.tdnone.lheight24\<close> and the offer
  tables matched by \<open>table#offers_table div.offer-wrapper>table\<close>, in document order.
\<close>

record olx_page =
  pagerLinks :: "jsstring list"
  offerTables :: "olx_ad list"

function getOlxUrlsToNextPages_loop ::
  "jsstring \<Rightarrow> nat \<Rightarrow> nat \<Rightarrow> jsstring list \<Rightarrow> jsstring list" where
  "getOlxUrlsToNextPages_loop olxUrl pagesCount i pagesUrls =
     (if i < pagesCount
      then getOlxUrlsToNextPages_loop olxUrl pagesCount (i + 1)
             (pagesUrls @ [olxUrl @ str ''&page='' @ showNat i])
      else pagesUrls)"
  by pat_completeness auto
termination
  by (relation "measure (\<lambda>(olxUrl, pagesCount, i, pagesUrls). pagesCount - i)") auto

declare getOlxUrlsToNextPages_loop.simps [simp del]

text \<open>\<open>olxUrl\<close> is \<open>Urls.Olx\<close> of \<open>src/constants\<close>, taken as a parameter.\<close>

definition getOlxUrlsToNextPages :: "jsstring \<Rightarrow> olx_page \<Rightarrow> jsstring list" where
  "getOlxUrlsToNextPages olxUrl page =
     getOlxUrlsToNextPages_loop olxUrl (length (pagerLinks page)) 2 []"

subsection \<open>Date normalisation\<close>

text \<open>What \<open>parseOlxAdTime\<close> returns: a \<open>Date\<close>, or a string when the text was not parsed.\<close>

datatype parsed = DateV jsdate | StrV jsstring

text \<open>\<open>a === b\<close> on numbers: \<open>NaN\<close> is equal to nothing.\<close>

definition strictEq :: "jsnum \<Rightarrow> jsnum \<Rightarrow> bool" where
  "strictEq a b = (a \<noteq> NaN \<and> b \<noteq> NaN \<and> a = b)"

text \<open>
  The integer a number passes to the \<open>Date\<close> constructor; it is only applied to the
  result of \<open>parseInt\<close> after the \<open>isNaN\<close> check, an integer. (A token of more than 308
  digits makes \<open>parseInt\<close> infinite and the \<open>Date\<close> invalid, which is not modelled.)
\<close>

definition numInt :: "jsnum \<Rightarrow> int" where
  "numInt x = (case x of Num q \<Rightarrow> \<lfloor>q\<rfloor> | _ \<Rightarrow> 0)"

text \<open>
  \<open>mapMonthPrefixToMonth(monthPrefix, true)\<close>: the scraper only calls it for the month
  number, so the branch of month names is left out. The default case throws.
\<close>

definition mapMonthPrefixToMonth :: "jsstring \<Rightarrow> error + int" where
  "mapMonthPrefixToMonth monthPrefix =
     (if monthPrefix = str ''sty'' then Inr 0
      else if monthPrefix = str ''lut'' then Inr 1
      else if monthPrefix = str ''mar'' then Inr 2
      else if monthPrefix = str ''kwi'' then Inr 3
      else if monthPrefix = str ''maj'' then Inr 4
      else if monthPrefix = str ''cze'' then Inr 5
      else if monthPrefix = str ''lip'' then Inr 6
      else if monthPrefix = str ''sie'' then Inr 7
      else if monthPrefix = str ''wrz'' then Inr 8
      else if monthPrefix = str ''pa'' @ [378] \<or> monthPrefix = str ''paz'' then Inr 9
      else if monthPrefix = str ''lis'' then Inr 10
      else if monthPrefix = str ''gru'' then Inr 11
      else Inl UnrecognizedMonthPrefix)"

text \<open>
  \<open>parseOlxAdDateWithMontPrefix(monthPrefix, day)\<close>. Either argument is \<open>undefined\<close> when
  the text had fewer tokens; \<open>monthPrefix.substr\<close> then throws a TypeError.
\<close>

definition parseOlxAdDateWithMontPrefix ::
  "env \<Rightarrow> jsstring option \<Rightarrow> jsstring option \<Rightarrow> error + parsed" where
  "parseOlxAdDateWithMontPrefix e monthPrefixArg day =
     (case monthPrefixArg of
        None \<Rightarrow> Inl TypeError
      | Some mp \<Rightarrow>
          (let monthPrefix = take 3 mp;
               dayNum = parseIntArg day
           in if isNaN dayNum \<or> \<not> strictEq (toNumberArg day) dayNum
              then Inr (StrV (toStringArg day @ str '' '' @ monthPrefix))
              else (case mapMonthPrefixToMonth monthPrefix of
                      Inl err \<Rightarrow> Inl err
                    | Inr monthNum \<Rightarrow>
                        (let year = nowFullYear e;
                             year' = (if monthNum = 11 \<and> nowDate e < numInt dayNum
                                      then year - 1 else year)
                         in Inr (DateV (Date year' monthNum (numInt dayNum) 0 0))))))"

text \<open>\<open>parseOlxAdTimeWithTodayYesterday(daySynonym, time)\<close>; \<open>time.split\<close> throws on \<open>undefined\<close>.\<close>

definition parseOlxAdTimeWithTodayYesterday ::
  "env \<Rightarrow> jsstring \<Rightarrow> jsstring option \<Rightarrow> error + parsed" where
  "parseOlxAdTimeWithTodayYesterday e daySynonym timeArg =
     (case timeArg of
        None \<Rightarrow> Inl TypeError
      | Some time \<Rightarrow>
          (let timeArr = splitOn 58 time;
               hour = parseIntArg (elemAt timeArr 0);
               minutes = parseIntArg (elemAt timeArr 1)
           in if isNaN hour \<or> isNaN minutes
                 \<or> \<not> strictEq hour (toNumberArg (elemAt timeArr 0))
                 \<or> \<not> strictEq minutes (toNumberArg (elemAt timeArr 1))
              then Inr (StrV (daySynonym @ str '' '' @ time))
              else Inr (DateV (Date (nowFullYear e) (nowMonth e)
                                 (nowDate e + (if daySynonym = str ''wczoraj'' then - 1 else 0))
                                 (numInt hour) (numInt minutes)))))"

text \<open>\<open>olxTime.split(' ').filter((x) => x !== '')\<close>: the tokens between the spaces.\<close>

definition splitTokens :: "jsstring \<Rightarrow> jsstring list" where
  "splitTokens olxTime = filter (\<lambda>x. x \<noteq> []) (splitOn 32 olxTime)"

definition parseOlxAdTime :: "env \<Rightarrow> jsstring \<Rightarrow> error + parsed" where
  "parseOlxAdTime e olxTime =
     (let olxTimeArr = splitTokens olxTime in
      if length olxTimeArr > 2 then Inr (StrV olxTime)
      else if elemAt olxTimeArr 0 = Some (str ''dzisiaj'')
              \<or> elemAt olxTimeArr 0 = Some (str ''wczoraj'')
      then parseOlxAdTimeWithTodayYesterday e (toStringArg (elemAt olxTimeArr 0))
             (elemAt olxTimeArr 1)
      else parseOlxAdDateWithMontPrefix e (elemAt olxTimeArr 1) (elemAt olxTimeArr 0))"

subsection \<open>Extraction of one page\<close>

text \<open>
  The cutoff test of \<open>parseOlxPageAds\<close>: \<open>currentDate > parsedDate.getTime() -
  (isTodayOrYesterday ? 0 : DAY_MS)\<close> with \<open>currentDate = Date.now() - (DAY_MS + 1000 * 30)\<close>.
\<close>

definition isStale :: "int \<Rightarrow> int \<Rightarrow> bool \<Rightarrow> bool" where
  "isStale now timestamp sameDayToken =
     (let currentDate = now - (DAY_MS + 1000 * 30)
      in currentDate > timestamp - (if sameDayToken then 0 else DAY_MS))"

definition isTodayOrYesterday :: "jsstring \<Rightarrow> bool" where
  "isTodayOrYesterday dt = (containsStr (str ''dzisiaj'') dt \<or> containsStr (str ''wczoraj'') dt)"

text \<open>
  An announcement. The Olx scraper never assigns \<open>id\<close>; \<open>attr\<close> gives \<open>undefined\<close> for a
  missing attribute.
\<close>

record announcement =
  offerId :: "jsstring option"
  dt :: jsstring
  title :: jsstring
  url :: "jsstring option"
  price :: jsstring
  imgUrl :: "jsstring option"
  description :: jsstring
  debugUrl :: jsstring
  debugIdx :: nat

definition makeAnnouncement :: "jsstring \<Rightarrow> olx_ad \<Rightarrow> jsstring \<Rightarrow> nat \<Rightarrow> announcement" where
  "makeAnnouncement adDate ad dbg i =
     \<lparr>offerId = None,
      dt = adDate,
      title = trim (filter (\<lambda>c. c \<noteq> 10) (titleText ad)),
      url = href ad,
      price = map (\<lambda>c. if c = 44 then 46 else c)
                (filter (\<lambda>c. isDigit c \<or> c = 46 \<or> c = 44) (priceText ad)),
      imgUrl = imgSrc ad,
      description = [],
      debugUrl = dbg,
      debugIdx = i\<rparr>"

text \<open>
  The loop of \<open>parseOlxPageAds\<close> over the offer tables from index \<open>i\<close>, with the
  announcements pushed so far; \<open>dbg\<close> is the url of the module's \<open>_debugInfo\<close>. The
  \<open>debug\<close> log lines are left out.
\<close>

fun parseOlxPageAds_loop ::
  "env \<Rightarrow> jsstring \<Rightarrow> olx_ad list \<Rightarrow> nat \<Rightarrow> announcement list
   \<Rightarrow> error + announcement list \<times> bool" where
  "parseOlxPageAds_loop e dbg [] i announcements = Inr (announcements, False)"
| "parseOlxPageAds_loop e dbg (ad # ads) i announcements =
     (case parseOlxAdTime e (dtText ad) of
        Inl err \<Rightarrow> Inl err
      | Inr (DateV parsedDate) \<Rightarrow>
          if isStale (nowMs e) (getTime e parsedDate) (isTodayOrYesterday (dtText ad))
          then Inr (announcements, True)
          else parseOlxPageAds_loop e dbg ads (i + 1)
                 (announcements @
                  [makeAnnouncement
                     (toLocaleString e (isTodayOrYesterday (dtText ad)) parsedDate) ad dbg i])
      | Inr (StrV adDate) \<Rightarrow>
          parseOlxPageAds_loop e dbg ads (i + 1)
            (announcements @ [makeAnnouncement adDate ad dbg i]))"

definition parseOlxPageAds ::
  "env \<Rightarrow> jsstring \<Rightarrow> olx_ad list \<Rightarrow> error + announcement list \<times> bool" where
  "parseOlxPageAds e dbg ads = parseOlxPageAds_loop e dbg ads 0 []"

definition getOlxPageAds ::
  "env \<Rightarrow> jsstring \<Rightarrow> olx_page \<Rightarrow> error + announcement list \<times> bool" where
  "getOlxPageAds e dbg page = parseOlxPageAds e dbg (offerTables page)"

text \<open>
  A sample environment for concrete runs: the clock reads the given instant and calendar
  day, the runtime's local time is UTC, and dates are printed as an empty string.
\<close>

definition sampleEnv :: "int \<Rightarrow> int \<Rightarrow> int \<Rightarrow> int \<Rightarrow> env" where
  "sampleEnv ms y m d =
     \<lparr>nowMs = ms, nowFullYear = y, nowMonth = m, nowDate = d,
      getTime = utcTime, toLocaleString = (\<lambda>b d. [])\<rparr>"

section \<open>The scraper\<close>

text \<open>
  How an asynchronous call ends: its promise is fulfilled, it is rejected (the \<open>await\<close>
  throws), or it never settles.
\<close>

datatype 'a outcome = Returns 'a | Throws error | NeverSettles

subsection \<open>Page acquisition\<close>

text \<open>
  The browser, as \<open>loadPage\<close> sees it: what the \<open>k\<close>-th \<open>page.goto(url)\<close> of one \<open>getPage\<close>
  call does (it throws, gives no response, or gives a response with a status and the
  page), and how many milliseconds it takes.
\<close>

datatype 'p response = GotoThrows jsstring | NoResponse | Response nat 'p

record 'p browser =
  goto :: "jsstring \<Rightarrow> nat \<Rightarrow> 'p response"
  gotoTime :: "jsstring \<Rightarrow> nat \<Rightarrow> int"

text \<open>The configuration (\<open>src/config\<close> is not among the sources): the fields the scraper reads.\<close>

record config =
  urls :: "jsstring \<Rightarrow> jsstring"
  scrapeSiteTimeout :: int
  isDev :: bool

definition loadPage :: "'p browser \<Rightarrow> jsstring \<Rightarrow> nat \<Rightarrow> error + 'p" where
  "loadPage b pageUrl k =
     (case goto b pageUrl k of
        GotoThrows msg \<Rightarrow> Inl (LoadError msg)
      | NoResponse \<Rightarrow> Inl (LoadError (str ''Could not get response the page.''))
      | Response responseStatus page \<Rightarrow>
          if responseStatus \<noteq> 200 then Inl (LoadError (str ''Wrong response status''))
          else Inr page)"

text \<open>
  The \<open>do ... while (true)\<close> of \<open>getPage\<close>. \<open>None\<close> is a loop that never ends; \<open>Some (Inl err)\<close>
  would be a throw and \<open>Some (Inr page)\<close> is the page returned. In the \<open>catch\<close> block the
  source evaluates \<open>new Error(...)\<close> when the budget is exceeded and drops the object: it is
  bound to \<open>discarded\<close> here and not used. \<open>now\<close> is the clock, advanced by each load and
  each \<open>sleep\<close>. The logger and \<open>sleep\<close> are taken not to throw.
\<close>

partial_function (option) getPage_loop ::
  "'p browser \<Rightarrow> int \<Rightarrow> jsstring \<Rightarrow> int \<Rightarrow> nat \<Rightarrow> int \<Rightarrow> (error + 'p) option" where
  "getPage_loop b timeoutBudget pageUrl startTime retries now =
     (let now1 = now + gotoTime b pageUrl retries in
      case loadPage b pageUrl retries of
        Inr page \<Rightarrow> Some (Inr page)
      | Inl err \<Rightarrow>
          (let discarded = (if now1 - startTime > timeoutBudget
                            then Some ScrapingExceeded else None);
               retries1 = retries + 1;
               timeout = (if retries1 < 15 then int retries1 else 15) * 1000
           in getPage_loop b timeoutBudget pageUrl startTime retries1 (now1 + timeout)))"

definition getPage :: "'p browser \<Rightarrow> config \<Rightarrow> jsstring \<Rightarrow> int \<Rightarrow> (error + 'p) option" where
  "getPage b cfg pageUrl startTime =
     getPage_loop b (scrapeSiteTimeout cfg) pageUrl startTime 0 startTime"

definition getPageOutcome :: "'p browser \<Rightarrow> config \<Rightarrow> int \<Rightarrow> jsstring \<Rightarrow> 'p outcome" where
  "getPageOutcome b cfg startTime pageUrl =
     (case getPage b cfg pageUrl startTime of
        None \<Rightarrow> NeverSettles
      | Some (Inl err) \<Rightarrow> Throws err
      | Some (Inr page) \<Rightarrow> Returns page)"

subsection \<open>The crawl of one site\<close>

datatype ScraperDataType = Html | Object

text \<open>
  A site scraper (\<open>ISiteScraper\<close>; the factory and the scrapers of the other sites are not
  among the sources). \<open>getPageAds\<close> may throw; \<open>getUrlsToNextPages\<close> is given the parsed
  page by an \<open>Html\<close> scraper and the url otherwise.
\<close>

record 'p site_scraper =
  serviceName :: jsstring
  scrapperDataType :: ScraperDataType
  getPageAds :: "'p \<Rightarrow> error + announcement list \<times> bool"
  getUrlsToNextPages :: "'p + jsstring \<Rightarrow> jsstring list"

text \<open>
  The \<open>do ... while\<close> of \<open>getSiteOffers\<close>, entered with \<open>pageUrls = pageUrl # rest\<close>.
  \<open>acquire\<close> is the call of \<open>this.getPage\<close>: whatever way it ends, the \<open>try\<close> around it
  decides what happens. \<open>getPageContent\<close> and \<open>getScraperPageAds\<close> stand outside that
  \<open>try\<close> (both are behind \<open>getPageAds\<close> here), so their error leaves the function as an
  exception. The \<open>info\<close> line with the page count is left out.
\<close>

function getSiteOffers_loop ::
  "(jsstring \<Rightarrow> 'p outcome) \<Rightarrow> 'p site_scraper \<Rightarrow> announcement list \<Rightarrow> jsstring
   \<Rightarrow> jsstring list \<Rightarrow> nat \<Rightarrow> (announcement list \<times> error option) outcome" where
  "getSiteOffers_loop acquire siteScraper offers pageUrl rest scrapedPagesCount =
     (case acquire pageUrl of
        Throws err \<Rightarrow> Returns (offers, Some err)
      | NeverSettles \<Rightarrow> NeverSettles
      | Returns currentPage \<Rightarrow>
          (case getPageAds siteScraper currentPage of
             Inl err \<Rightarrow> Throws err
           | Inr (pageOffers, isDone) \<Rightarrow>
               (let offers1 = offers @ pageOffers;
                    scrapedPagesCount1 = scrapedPagesCount + 1;
                    pageUrls =
                      (if \<not> isDone \<and> scrapedPagesCount1 = 1
                       then rest @
                         (if scrapperDataType siteScraper = Html
                          then getUrlsToNextPages siteScraper (Inl currentPage)
                          else getUrlsToNextPages siteScraper (Inr pageUrl))
                       else rest)
                in if \<not> isDone \<and> length pageUrls > 0
                   then getSiteOffers_loop acquire siteScraper offers1 (hd pageUrls)
                          (tl pageUrls) scrapedPagesCount1
                   else Returns (offers1, None))))"
  by pat_completeness auto
termination
  by (relation "measures
        [\<lambda>(acquire, siteScraper, offers, pageUrl, rest, scrapedPagesCount).
            if scrapedPagesCount = 0 then 1 else 0,
         \<lambda>(acquire, siteScraper, offers, pageUrl, rest, scrapedPagesCount). length rest]")
    (auto split: if_splits)

declare getSiteOffers_loop.simps [simp del]

definition getSiteOffers ::
  "(jsstring \<Rightarrow> 'p outcome) \<Rightarrow> config \<Rightarrow> 'p site_scraper
   \<Rightarrow> (announcement list \<times> error option) outcome" where
  "getSiteOffers acquire cfg siteScraper =
     getSiteOffers_loop acquire siteScraper [] (urls cfg (serviceName siteScraper)) [] 0"

subsection \<open>Saving the offers of one site\<close>

text \<open>
  The world the per-site caller changes: the file written for each site (the path also
  holds the run date, which is the same for the whole run) and the log lines at level
  \<open>info\<close>, \<open>warn\<close> and \<open>error\<close>. The file system says whether \<open>ensurePathExists\<close> and
  \<open>writeFile\<close> fail.
\<close>

datatype log_line =
    AboutToSave jsstring
  | FailToSave jsstring error
  | MissingData jsstring
  | NumberOfOffers jsstring nat

record world =
  files :: "jsstring \<Rightarrow> announcement list option"
  logLines :: "log_line list"

record filesystem =
  ensurePathExists :: "jsstring \<Rightarrow> error option"
  writeFile :: "jsstring \<Rightarrow> error option"

definition saveSiteOffers ::
  "filesystem \<Rightarrow> world \<Rightarrow> jsstring \<Rightarrow> announcement list \<Rightarrow> unit outcome \<times> world" where
  "saveSiteOffers fs w siteName dataToSave =
     (case ensurePathExists fs siteName of
        Some err \<Rightarrow> (Throws err, w\<lparr>logLines := logLines w @ [FailToSave siteName err]\<rparr>)
      | None \<Rightarrow>
          (let w1 = w\<lparr>logLines := logLines w @ [AboutToSave siteName]\<rparr> in
           case writeFile fs siteName of
             Some err \<Rightarrow> (Throws err, w1\<lparr>logLines := logLines w1 @ [FailToSave siteName err]\<rparr>)
           | None \<Rightarrow> (Returns (), w1\<lparr>files := (files w1)(siteName \<mapsto> dataToSave)\<rparr>)))"

definition missingData :: "announcement \<Rightarrow> bool" where
  "missingData x =
     (offerId x = Some [] \<or> title x = [] \<or> price x = [] \<or> url x = Some [] \<or> dt x = []
      \<or> imgUrl x = Some [])"

definition validateOffers :: "config \<Rightarrow> announcement list \<Rightarrow> jsstring \<Rightarrow> world \<Rightarrow> world" where
  "validateOffers cfg offers siteName w =
     (if isDev cfg
      then (let withMissingData = filter missingData offers in
            if length withMissingData > 0
            then w\<lparr>logLines := logLines w @ [MissingData siteName]\<rparr>
            else w)
      else w)"

text \<open>
  \<open>scrapeSiteOffers\<close>. \<open>getSiteOffersOf siteName\<close> is the call
  \<open>this.getSiteOffers(browser, makeSiteScraper(siteName))\<close>; the second component of its
  result, \<open>error\<close>, is bound by the source and never read.
\<close>

definition scrapeSiteOffers ::
  "(jsstring \<Rightarrow> (announcement list \<times> error option) outcome) \<Rightarrow> config \<Rightarrow> filesystem
   \<Rightarrow> jsstring \<Rightarrow> world \<Rightarrow> unit outcome \<times> world" where
  "scrapeSiteOffers getSiteOffersOf cfg fs siteName w =
     (case getSiteOffersOf siteName of
        Throws err \<Rightarrow> (Throws err, w)
      | NeverSettles \<Rightarrow> (NeverSettles, w)
      | Returns (todayOffers, error) \<Rightarrow>
          (case saveSiteOffers fs w siteName todayOffers of
             (Throws err, w1) \<Rightarrow> (Throws err, w1)
           | (NeverSettles, w1) \<Rightarrow> (NeverSettles, w1)
           | (Returns u, w1) \<Rightarrow>
               (let w2 = validateOffers cfg todayOffers siteName w1 in
                (Returns (),
                 w2\<lparr>logLines := logLines w2 @ [NumberOfOffers siteName (length todayOffers)]\<rparr>))))"

subsection \<open>The run over the site list\<close>

text \<open>
  \<open>await Promise.all(promises)\<close>: rejected as soon as one promise is rejected (with the
  first rejection in list order here; the run time decides which one comes first),
  fulfilled when all are, and pending for ever otherwise.
\<close>

fun promiseAll :: "unit outcome list \<Rightarrow> unit outcome" where
  "promiseAll [] = Returns ()"
| "promiseAll (p # ps) =
     (case p of
        Throws err \<Rightarrow> Throws err
      | Returns u \<Rightarrow> promiseAll ps
      | NeverSettles \<Rightarrow> (case promiseAll ps of Throws err \<Rightarrow> Throws err | _ \<Rightarrow> NeverSettles))"

text \<open>
  The \<open>while\<close> loop of \<open>scrapeOffers\<close>. \<open>crawl siteName\<close> is how the promise of
  \<open>this.scrapeSiteOffers(browser, siteName)\<close> ends. The result lists the batches of sites
  launched, each batch awaited before the next is launched, and how the run ends.
\<close>

function scrapeOffers_loop ::
  "(jsstring \<Rightarrow> unit outcome) \<Rightarrow> jsstring list \<Rightarrow> nat \<Rightarrow> jsstring list list
   \<Rightarrow> jsstring list list \<times> unit outcome" where
  "scrapeOffers_loop crawl sites siteIndex launched =
     (if siteIndex < length sites
      then (let first = sites ! siteIndex;
                siteIndex1 = siteIndex + 1;
                promises = (if siteIndex1 < length sites
                            then [first, sites ! siteIndex1] else [first]);
                siteIndex2 = siteIndex1 + 1
            in case promiseAll (map crawl promises) of
                 Returns u \<Rightarrow> scrapeOffers_loop crawl sites siteIndex2 (launched @ [promises])
               | Throws err \<Rightarrow> (launched @ [promises], Throws err)
               | NeverSettles \<Rightarrow> (launched @ [promises], NeverSettles))
      else (launched, Returns ()))"
  by pat_completeness auto
termination
  by (relation "measure (\<lambda>(crawl, sites, siteIndex, launched). length sites - siteIndex)") auto

declare scrapeOffers_loop.simps [simp del]

definition scrapeOffers ::
  "(jsstring \<Rightarrow> unit outcome) \<Rightarrow> jsstring list \<Rightarrow> jsstring list list \<times> unit outcome" where
  "scrapeOffers crawl sites = scrapeOffers_loop crawl sites 0 []"




text \<open>The claim's schedule: the list cut into consecutive pairs, an odd last site alone.\<close>

fun consecutivePairs :: "'a list \<Rightarrow> 'a list list" where
  "consecutivePairs [] = []"
| "consecutivePairs [x] = [[x]]"
| "consecutivePairs (x # y # zs) = [x, y] # consecutivePairs zs"

section \<open>Sample inputs\<close>

definition sampleAd :: "string \<Rightarrow> string \<Rightarrow> olx_ad" where
  "sampleAd d t =
     \<lparr>dtText = str d, titleText = str t, href = Some (str t),
      priceText = str ''1 200,50 zl'', imgSrc = None\<rparr>"

definition sampleNow :: env where
  "sampleNow = sampleEnv 1704880800000 2024 0 10"

definition sampleConfig :: config where
  "sampleConfig = \<lparr>urls = (\<lambda>s. s), scrapeSiteTimeout = 0, isDev = False\<rparr>"

definition sampleFs :: filesystem where
  "sampleFs = \<lparr>ensurePathExists = (\<lambda>s. None), writeFile = (\<lambda>s. None)\<rparr>"

definition emptyWorld :: world where
  "emptyWorld = \<lparr>files = (\<lambda>s. None), logLines = []\<rparr>"

text \<open>
  An \<open>Html\<close> site scraper built from the Olx functions above, and two pages of it: the
  first holds one fresh entry and four pager links (so two more pages follow), the
  second an entry whose month prefix is not recognised.
\<close>

definition olxSiteScraper :: "env \<Rightarrow> jsstring \<Rightarrow> olx_page site_scraper" where
  "olxSiteScraper e olxUrl =
     \<lparr>serviceName = str ''olx'',
      scrapperDataType = Html,
      getPageAds = getOlxPageAds e olxUrl,
      getUrlsToNextPages = (\<lambda>x. case x of Inl page \<Rightarrow> getOlxUrlsToNextPages olxUrl page
                                       | Inr u \<Rightarrow> [])\<rparr>"

definition samplePage1 :: olx_page where
  "samplePage1 =
     \<lparr>pagerLinks = [str ''1'', str ''2'', str ''3'', str ''4''],
      offerTables = [sampleAd ''dzisiaj 09:30'' ''a'']\<rparr>"

definition samplePage2 :: olx_page where
  "samplePage2 =
     \<lparr>pagerLinks = [str ''1'', str ''2'', str ''3'', str ''4''],
      offerTables = [sampleAd ''12 abc'' ''b'']\<rparr>"

text \<open>Every page loads; the second page is the one that cannot be extracted.\<close>

definition sampleSite :: "jsstring \<Rightarrow> olx_page outcome" where
  "sampleSite pageUrl =
     (if pageUrl = str ''olx&page=2'' then Returns samplePage2 else Returns samplePage1)"

text \<open>The first two pages load; the call of \<open>getPage\<close> for the third url throws.\<close>

definition sampleSiteOffline :: "jsstring \<Rightarrow> olx_page outcome" where
  "sampleSiteOffline pageUrl =
     (if pageUrl = str ''olx&page=3'' then Throws (LoadError pageUrl)
      else Returns samplePage1)"

text \<open>
  The per-site call for a run in which the site \<open>olx\<close> is the sample site above and
  every other site has no offers.
\<close>

definition sampleCrawl :: "jsstring \<Rightarrow> unit outcome" where
  "sampleCrawl siteName =
     fst (scrapeSiteOffers
            (\<lambda>s. if s = str ''olx''
                  then getSiteOffers sampleSite sampleConfig
                         (olxSiteScraper sampleNow (str ''olx''))
                  else Returns ([], None))
            sampleConfig sampleFs siteName emptyWorld)"

text \<open>A browser that answers every load with status 503.\<close>

definition sampleBrowser503 :: "olx_page browser" where
  "sampleBrowser503 = \<lparr>goto = (\<lambda>u k. Response 503 samplePage1), gotoTime = (\<lambda>u k. 1000)\<rparr>"

text \<open>Site crawls of which exactly one is rejected.\<close>

definition crawlFailingAt :: "jsstring \<Rightarrow> jsstring \<Rightarrow> unit outcome" where
  "crawlFailingAt bad siteName = (if siteName = bad then Throws FileError else Returns ())"

section \<open>Properties\<close>

subsection \<open>Pagination of the content-based strategy\<close>

lemma showNat_digit: "n < 10 \<Longrightarrow> showNat n = [48 + n]"
  by (simp add: showNat.simps)

lemma getOlxUrlsToNextPages_loop_eq:
  "getOlxUrlsToNextPages_loop u n i acc =
     acc @ map (\<lambda>k. u @ str ''&page='' @ showNat k) [i..<n]"
proof (induction u n i acc rule: getOlxUrlsToNextPages_loop.induct)
  case (1 olxUrl pagesCount i pagesUrls)
  show ?case
  proof (cases "i < pagesCount")
    case True
    with "1" show ?thesis
      by (simp add: upt_conv_Cons
            getOlxUrlsToNextPages_loop.simps [of olxUrl pagesCount i pagesUrls])
  next
    case False
    then show ?thesis
      by (simp add: getOlxUrlsToNextPages_loop.simps [of olxUrl pagesCount i pagesUrls])
  qed
qed

text \<open>
  C5. On a first page with \<open>n\<close> pager links, \<open>getOlxUrlsToNextPages\<close> returns exactly the
  URLs \<open>Urls.Olx + '&page=' + i\<close> for \<open>i = 2, ..., n - 1\<close> in increasing order: \<open>n - 2\<close> URLs
  (one fewer than the \<open>n - 1\<close> links left after skipping the first), and none when
  \<open>n \<le> 2\<close>. Being a function of the page, equal inputs give equal outputs.
\<close>

theorem getOlxUrlsToNextPages_indices:
  "getOlxUrlsToNextPages u page =
     map (\<lambda>i. u @ str ''&page='' @ showNat i) [2..<length (pagerLinks page)]
   \<and> length (getOlxUrlsToNextPages u page) = length (pagerLinks page) - 2
   \<and> (getOlxUrlsToNextPages u page = [] \<longleftrightarrow> length (pagerLinks page) \<le> 2)"
  by (auto simp: getOlxUrlsToNextPages_def getOlxUrlsToNextPages_loop_eq)

theorem getOlxUrlsToNextPages_indices_witness:
  "getOlxUrlsToNextPages (str ''u'')
     \<lparr>pagerLinks = [str ''a'', str ''b'', str ''c'', str ''d'', str ''e''], offerTables = []\<rparr>
   = [str ''u&page=2'', str ''u&page=3'', str ''u&page=4'']"
  using getOlxUrlsToNextPages_indices
    [of "str ''u''"
        "\<lparr>pagerLinks = [str ''a'', str ''b'', str ''c'', str ''d'', str ''e''], offerTables = []\<rparr>"]
  by (simp add: str_def upt_conv_Cons showNat_digit)

subsection \<open>Date normalisation\<close>

lemma digit_not_space: "isDigit c \<Longrightarrow> \<not> isStrWhiteSpaceChar c"
  by (auto simp: isDigit_def isStrWhiteSpaceChar_def)

lemma trimStart_digits:
  assumes "ds \<noteq> []" "\<forall>c \<in> set ds. isDigit c"
  shows "trimStart ds = ds"
  using assms by (cases ds) (auto simp: trimStart_def digit_not_space)

lemma trim_digits:
  assumes "ds \<noteq> []" "\<forall>c \<in> set ds. isDigit c"
  shows "trim ds = ds"
proof -
  have a: "dropWhile isStrWhiteSpaceChar ds = ds"
    using assms by (cases ds) (auto simp: digit_not_space)
  have "rev ds \<noteq> []" "\<forall>c \<in> set (rev ds). isDigit c" using assms by auto
  then have b: "dropWhile isStrWhiteSpaceChar (rev ds) = rev ds"
    by (cases "rev ds") (auto simp: digit_not_space)
  show ?thesis by (simp add: trim_def a b)
qed

lemma hd_digit:
  assumes "ds \<noteq> []" "\<forall>c \<in> set ds. isDigit c"
  shows "isDigit (hd ds)"
  using assms by (cases ds) auto

lemma bitLength_le: "n < 2 ^ w \<Longrightarrow> bitLength n \<le> w"
proof (induction w arbitrary: n)
  case 0
  then show ?case by (simp add: bitLength.simps)
next
  case (Suc w)
  show ?case
  proof (cases "n = 0")
    case True
    then show ?thesis by (simp add: bitLength.simps)
  next
    case False
    from Suc.prems have "n div 2 < 2 ^ w" by simp
    from Suc.IH [OF this] False show ?thesis by (subst bitLength.simps) simp
  qed
qed

lemma roundHalfEven_int: "roundHalfEven (of_int z) = z"
  by (simp add: roundHalfEven_def)

text \<open>A non-negative integer below \<open>2 ^ 53\<close> is a double: its Number value is itself.\<close>

lemma numberValue_nat:
  assumes "n < 2 ^ 53"
  shows "numberValue (of_nat n) = Num (of_nat n)"
proof (cases "n = 0")
  case True
  then show ?thesis by (simp add: numberValue_def)
next
  case False
  define e where "e = max (floorLog2 (of_nat n) - 52) (- 1074)"
  have q: "(1::rat) \<le> of_nat n" using False by simp
  have "floorLog2 (of_nat n) = int (bitLength n) - 1"
    using q by (simp add: floorLog2_def)
  with bitLength_le [OF assms] have e0: "e \<le> 0" by (simp add: e_def)
  have p: "pow2 e = 1 / 2 ^ nat (- e)"
    using e0 by (cases "e = 0") (simp_all add: pow2_def)
  have d: "(of_nat n :: rat) / pow2 e = of_int (int n * 2 ^ nat (- e))"
    by (simp add: p)
  have r: "roundHalfEven (of_nat n / pow2 e) = int n * 2 ^ nat (- e)"
    unfolding d by (rule roundHalfEven_int)
  have v: "of_int (roundHalfEven (of_nat n / pow2 e)) * pow2 e = (of_nat n :: rat)"
    unfolding r by (simp add: p)
  have b: "\<not> (2 ^ 1024 \<le> (of_nat n :: rat))"
  proof -
    have "(of_nat n :: rat) < of_nat (2 ^ 53)" using assms by (simp only: of_nat_less_iff)
    also have "\<dots> < 2 ^ 1024" by simp
    finally show ?thesis by simp
  qed
  show ?thesis
    using False b by (simp add: numberValue_def Let_def e_def [symmetric] v)
qed

lemma parseInt10_digits:
  assumes "ds \<noteq> []" "\<forall>c \<in> set ds. isDigit c" "digitsValue ds < 2 ^ 53"
  shows "parseInt10 ds = Num (of_nat (digitsValue ds))"
proof -
  have h: "hd ds \<noteq> 45" "hd ds \<noteq> 43"
    using hd_digit [OF assms(1,2)] by (auto simp: isDigit_def)
  have t: "takeWhile isDigit ds = ds" using assms by (simp add: takeWhile_eq_all_conv)
  show ?thesis
    using assms(1)
    by (simp add: parseInt10_def trimStart_digits [OF assms(1,2)] h t
          numberValue_nat [OF assms(3)])
qed

lemma take2_digits:
  assumes "\<forall>c \<in> set ds. isDigit c" "\<not> isDigit b"
  shows "take 2 ds \<noteq> [a, b]"
proof
  assume "take 2 ds = [a, b]"
  then have "b \<in> set (take 2 ds)" by simp
  then have "b \<in> set ds" by (rule in_set_takeD)
  with assms show False by blast
qed

lemma strUnsignedDecimalLiteral_digits:
  assumes "ds \<noteq> []" "\<forall>c \<in> set ds. isDigit c" "digitsValue ds < 2 ^ 53"
  shows "strUnsignedDecimalLiteral ds = Num (of_nat (digitsValue ds))"
proof -
  have i: "ds \<noteq> str ''Infinity''"
  proof
    assume "ds = str ''Infinity''"
    then have "73 \<in> set ds" by (simp add: str_def)
    with assms(2) show False by (auto simp: isDigit_def)
  qed
  have t: "takeWhile isDigit ds = ds" using assms by (simp add: takeWhile_eq_all_conv)
  have d: "dropWhile isDigit ds = []" using assms by simp
  have z: "digitsValue [] = 0" by (simp add: digitsValue_def)
  show ?thesis
    using assms(1)
    by (simp add: strUnsignedDecimalLiteral_def i t d exponentPart_def z
          numberValue_nat [OF assms(3)])
qed

lemma toNumber_digits:
  assumes "ds \<noteq> []" "\<forall>c \<in> set ds. isDigit c" "digitsValue ds < 2 ^ 53"
  shows "toNumber ds = Num (of_nat (digitsValue ds))"
proof -
  have h: "hd ds \<noteq> 45" "hd ds \<noteq> 43"
    using hd_digit [OF assms(1,2)] by (auto simp: isDigit_def)
  have p: "take 2 ds \<noteq> str ''0x''" "take 2 ds \<noteq> str ''0X''" "take 2 ds \<noteq> str ''0o''"
    "take 2 ds \<noteq> str ''0O''" "take 2 ds \<noteq> str ''0b''" "take 2 ds \<noteq> str ''0B''"
    using assms(2) by (simp_all add: str_def take2_digits isDigit_def)
  show ?thesis
    using assms(1)
    by (simp add: toNumber_def trim_digits [OF assms(1,2)] h p
          strUnsignedDecimalLiteral_digits [OF assms])
qed

lemma elemAt_simps [simp]:
  "elemAt (x # xs) 0 = Some x" "elemAt [x, y] 1 = Some y" "elemAt [] i = None"
  "elemAt [x] 1 = None" "elemAt [x] (Suc 0) = None" "elemAt [x, y] (Suc 0) = Some y"
  by (simp_all add: elemAt_def)

lemma digits_not_word:
  assumes "ds \<noteq> []" "\<forall>c \<in> set ds. isDigit c"
  shows "ds \<noteq> str ''dzisiaj''" "ds \<noteq> str ''wczoraj''"
  using hd_digit [OF assms] by (auto simp: str_def isDigit_def)

text \<open>
  The model agrees with the runtime where rounding matters: \<open>1.0000000000000000001\<close> is
  the double 1 for \<open>Number\<close> as for \<open>parseInt\<close>, so as a day token it passes the round-trip
  check.
\<close>

lemma bitLength_1: "bitLength (Suc 0) = 1"
proof -
  have "bitLength 0 = 0" by (subst bitLength.simps) simp
  then show ?thesis by (subst bitLength.simps) simp
qed

lemma numberValue_just_above_1:
  assumes "1 \<le> q" "q - 1 < 1 / 2 ^ 53"
  shows "numberValue q = Num 1"
proof -
  have q2: "q < 2"
  proof -
    have "(1::rat) / 2 ^ 53 < 1" by simp
    with assms(2) show ?thesis by linarith
  qed
  have fl: "\<lfloor>q\<rfloor> = 1" using assms(1) q2 by (intro floor_unique) simp_all
  have f: "floorLog2 q = 0" using assms(1) by (simp add: floorLog2_def fl bitLength_1)
  have p: "pow2 (- 52) = 1 / 2 ^ 52" by (simp add: pow2_def)
  have s: "q * 2 ^ 52 - 2 ^ 52 < 1 / 2"
  proof -
    have "q * 2 ^ 52 - 2 ^ 52 = (q - 1) * 2 ^ 52" by (simp add: algebra_simps)
    also have "\<dots> < (1 / 2 ^ 53) * 2 ^ 52" using assms(2) by (intro mult_strict_right_mono) simp_all
    also have "\<dots> = 1 / 2" by simp
    finally show ?thesis .
  qed
  have g: "(2::rat) ^ 52 \<le> q * 2 ^ 52" using assms(1) by simp
  have fm: "\<lfloor>q * 2 ^ 52\<rfloor> = 2 ^ 52"
  proof (rule floor_unique)
    show "of_int (2 ^ 52) \<le> q * 2 ^ 52" using g by simp
    show "q * 2 ^ 52 < of_int (2 ^ 52) + 1" using s by simp
  qed
  have r: "roundHalfEven (q * 2 ^ 52) = 2 ^ 52"
    unfolding roundHalfEven_def Let_def fm using s by simp
  have n: "q \<noteq> 0" "\<not> q < 0" "\<bar>q\<bar> = q" using assms(1) by simp_all
  have e: "max (floorLog2 q - 52) (- 1074) = - 52" by (simp add: f)
  have d: "q / pow2 (- 52) = q * 2 ^ 52" by (simp add: p)
  show ?thesis
    unfolding numberValue_def Let_def n(3) e d r using n(1,2) by (simp add: p)
qed

lemma toNumber_rounds:
  "toNumber (str ''1.0000000000000000001'') = Num 1"
  "parseInt10 (str ''1.0000000000000000001'') = Num 1"
proof -
  have t: "trim (str ''1.0000000000000000001'') = str ''1.0000000000000000001''"
    by (simp add: trim_def str_def isStrWhiteSpaceChar_def)
  have v: "numberValue (10000000000000000001 / 10000000000000000000) = Num 1"
    by (rule numberValue_just_above_1) simp_all
  have u: "strUnsignedDecimalLiteral (str ''1.0000000000000000001'') = Num 1"
    using v by (simp add: strUnsignedDecimalLiteral_def str_def isDigit_def exponentPart_def
          digitsValue_def)
  show "toNumber (str ''1.0000000000000000001'') = Num 1"
    unfolding toNumber_def t Let_def using u by (simp add: str_def)
  have one: "numberValue 1 = Num 1" using numberValue_nat [of 1] by simp
  show "parseInt10 (str ''1.0000000000000000001'') = Num 1"
    using one
    by (simp add: parseInt10_def trimStart_def str_def isStrWhiteSpaceChar_def isDigit_def
          digitsValue_def)
qed

lemma parseOlxAdTime_rounded_day:
  "parseOlxAdTime e (str ''1.0000000000000000001 sty'')
     = Inr (DateV (Date (nowFullYear e) 0 1 0 0))"
proof -
  have t: "splitTokens (str ''1.0000000000000000001 sty'')
      = [str ''1.0000000000000000001'', str ''sty'']"
    by (simp add: splitTokens_def str_def)
  have w: "str ''1.0000000000000000001'' \<noteq> str ''dzisiaj''"
    "str ''1.0000000000000000001'' \<noteq> str ''wczoraj''"
    by (simp_all add: str_def)
  have m: "mapMonthPrefixToMonth (take 3 (str ''sty'')) = Inr 0"
    by (simp add: mapMonthPrefixToMonth_def str_def)
  show ?thesis
    using w
    by (simp add: parseOlxAdTime_def t parseOlxAdDateWithMontPrefix_def parseIntArg_def
          toNumberArg_def toNumber_rounds isNaN_def strictEq_def m numInt_def Let_def)
qed

lemma mapMonthPrefixToMonth_values:
  "mapMonthPrefixToMonth (str ''sty'') = Inr 0"
  "mapMonthPrefixToMonth (str ''lut'') = Inr 1"
  "mapMonthPrefixToMonth (str ''mar'') = Inr 2"
  "mapMonthPrefixToMonth (str ''kwi'') = Inr 3"
  "mapMonthPrefixToMonth (str ''maj'') = Inr 4"
  "mapMonthPrefixToMonth (str ''cze'') = Inr 5"
  "mapMonthPrefixToMonth (str ''lip'') = Inr 6"
  "mapMonthPrefixToMonth (str ''sie'') = Inr 7"
  "mapMonthPrefixToMonth (str ''wrz'') = Inr 8"
  "mapMonthPrefixToMonth (str ''pa'' @ [378]) = Inr 9"
  "mapMonthPrefixToMonth (str ''paz'') = Inr 9"
  "mapMonthPrefixToMonth (str ''lis'') = Inr 10"
  "mapMonthPrefixToMonth (str ''gru'') = Inr 11"
  by (simp_all add: mapMonthPrefixToMonth_def str_def)

lemma mapMonthPrefixToMonth_table:
  assumes "(p, m) \<in> set [(str ''sty'', 0), (str ''lut'', 1), (str ''mar'', 2), (str ''kwi'', 3),
                (str ''maj'', 4), (str ''cze'', 5), (str ''lip'', 6), (str ''sie'', 7),
                (str ''wrz'', 8), (str ''pa'' @ [378], 9), (str ''paz'', 9),
                (str ''lis'', 10), (str ''gru'', 11)]"
  shows "mapMonthPrefixToMonth p = Inr m"
proof -
  from assms have
    "p = str ''sty'' \<and> m = 0 \<or> p = str ''lut'' \<and> m = 1 \<or> p = str ''mar'' \<and> m = 2
     \<or> p = str ''kwi'' \<and> m = 3 \<or> p = str ''maj'' \<and> m = 4 \<or> p = str ''cze'' \<and> m = 5
     \<or> p = str ''lip'' \<and> m = 6 \<or> p = str ''sie'' \<and> m = 7 \<or> p = str ''wrz'' \<and> m = 8
     \<or> p = str ''pa'' @ [378] \<and> m = 9 \<or> p = str ''paz'' \<and> m = 9
     \<or> p = str ''lis'' \<and> m = 10 \<or> p = str ''gru'' \<and> m = 11"
    by (simp only: list.set insert_iff empty_iff prod.inject simp_thms)
  then show ?thesis
    by (elim disjE conjE) (simp_all only: mapMonthPrefixToMonth_values)
qed

text \<open>
  C6 (amended). When the text has exactly two tokens between spaces (U+0020), the first a
  run of decimal digits (an integer day of the month; any value below \<open>2 ^ 53\<close>) and the
  second starting with one of the three-letter month prefixes \<open>sty\<close>, \<open>lut\<close>, \<open>mar\<close>,
  \<open>kwi\<close>, \<open>maj\<close>, \<open>cze\<close>, \<open>lip\<close>, \<open>sie\<close>, \<open>wrz\<close>, \<open>paz\<close> (with or without the accent), \<open>lis\<close>,
  \<open>gru\<close> of the months 0 to 11, \<open>parseOlxAdTime\<close> returns \<open>new Date(year, month, day)\<close> for
  that month and day in the current year, and in the year before when the month is
  December (11) and the day is greater than today's day of the month. The text \<open>29 gru\<close>
  read on 2024-01-05 gives 29 December 2023, read on 2024-12-30 it gives 29 December
  2024.
\<close>

theorem parseOlxAdTime_day_month:
  assumes tokens: "splitTokens olxTime = [day, month]"
    and day: "day \<noteq> []" "\<forall>c \<in> set day. isDigit c" "digitsValue day < 2 ^ 53"
    and month: "(take 3 month, m) \<in> set [(str ''sty'', 0), (str ''lut'', 1), (str ''mar'', 2), (str ''kwi'', 3),
                (str ''maj'', 4), (str ''cze'', 5), (str ''lip'', 6), (str ''sie'', 7),
                (str ''wrz'', 8), (str ''pa'' @ [378], 9), (str ''paz'', 9),
                (str ''lis'', 10), (str ''gru'', 11)]"
  shows "parseOlxAdTime e olxTime =
           Inr (DateV (Date (if m = 11 \<and> nowDate e < int (digitsValue day)
                             then nowFullYear e - 1 else nowFullYear e)
                        m (int (digitsValue day)) 0 0))"
proof -
  have m: "mapMonthPrefixToMonth (take 3 month) = Inr m"
    by (rule mapMonthPrefixToMonth_table [OF month])
  have n: "parseInt10 day = Num (of_nat (digitsValue day))"
    "toNumber day = Num (of_nat (digitsValue day))"
    by (rule parseInt10_digits [OF day], rule toNumber_digits [OF day])
  show ?thesis
    using digits_not_word [OF day(1,2)]
    by (simp add: parseOlxAdTime_def tokens parseOlxAdDateWithMontPrefix_def parseIntArg_def
          toNumberArg_def n isNaN_def strictEq_def m numInt_def Let_def)
qed

theorem parseOlxAdTime_day_month_witness:
  "parseOlxAdTime (sampleEnv 1704448800000 2024 0 5) (str ''29 gru'')
     = Inr (DateV (Date 2023 11 29 0 0))
   \<and> parseOlxAdTime (sampleEnv 1735552800000 2024 11 30) (str ''29 gru'')
     = Inr (DateV (Date 2024 11 29 0 0))
   \<and> parseOlxAdTime (sampleEnv 1704448800000 2024 0 5) (str ''  3  lutego '')
     = Inr (DateV (Date 2024 1 3 0 0))"
proof -
  have t: "splitTokens (str ''29 gru'') = [str ''29'', str ''gru'']"
    "splitTokens (str ''  3  lutego '') = [str ''3'', str ''lutego'']"
    by (simp_all add: str_def splitTokens_def)
  have d: "str ''29'' \<noteq> []" "\<forall>c \<in> set (str ''29''). isDigit c"
    "digitsValue (str ''29'') < 2 ^ 53"
    by (simp_all add: str_def isDigit_def digitsValue_def)
  have d3: "str ''3'' \<noteq> []" "\<forall>c \<in> set (str ''3''). isDigit c"
    "digitsValue (str ''3'') < 2 ^ 53"
    by (simp_all add: str_def isDigit_def digitsValue_def)
  have m: "(take 3 (str ''gru''), 11) \<in> set [(str ''sty'', 0), (str ''lut'', 1), (str ''mar'', 2), (str ''kwi'', 3),
                (str ''maj'', 4), (str ''cze'', 5), (str ''lip'', 6), (str ''sie'', 7),
                (str ''wrz'', 8), (str ''pa'' @ [378], 9), (str ''paz'', 9),
                (str ''lis'', 10), (str ''gru'', 11)]"
    by (simp add: str_def)
  have m3: "(take 3 (str ''lutego''), 1) \<in> set [(str ''sty'', 0), (str ''lut'', 1), (str ''mar'', 2), (str ''kwi'', 3),
                (str ''maj'', 4), (str ''cze'', 5), (str ''lip'', 6), (str ''sie'', 7),
                (str ''wrz'', 8), (str ''pa'' @ [378], 9), (str ''paz'', 9),
                (str ''lis'', 10), (str ''gru'', 11)]"
    by (simp add: str_def)
  have v: "digitsValue (str ''29'') = 29" "digitsValue (str ''3'') = 3"
    by (simp_all add: str_def digitsValue_def)
  show ?thesis
    using parseOlxAdTime_day_month [OF t(1) d m, of "sampleEnv 1704448800000 2024 0 5"]
      parseOlxAdTime_day_month [OF t(1) d m, of "sampleEnv 1735552800000 2024 11 30"]
      parseOlxAdTime_day_month [OF t(2) d3 m3, of "sampleEnv 1704448800000 2024 0 5"]
    by (simp add: v sampleEnv_def)
qed

text \<open>
  The claim as stated fails for white space other than the space: the source splits the
  text at U+0020 only, so a day and a month with a tab or a no-break space between them
  are one token, no second token exists, and the call raises a TypeError.
\<close>

theorem parseOlxAdTime_day_month_counterexample:
  "parseOlxAdTime (sampleEnv 1704448800000 2024 0 5) (str ''29'' @ [9] @ str ''gru'')
     = Inl TypeError
   \<and> parseOlxAdTime (sampleEnv 1704448800000 2024 0 5) (str ''29'' @ [160] @ str ''gru'')
     = Inl TypeError"
  by (simp add: parseOlxAdTime_def splitTokens_def str_def parseOlxAdDateWithMontPrefix_def)

lemma mapMonthPrefixToMonth_error:
  "mapMonthPrefixToMonth mp = Inl err \<Longrightarrow> err = UnrecognizedMonthPrefix"
  by (simp add: mapMonthPrefixToMonth_def split: if_splits)

lemma parseOlxAdTimeWithTodayYesterday_returns:
  "parseOlxAdTimeWithTodayYesterday e w (Some time) \<noteq> Inl err"
  by (simp add: parseOlxAdTimeWithTodayYesterday_def Let_def)

lemma parseOlxAdDateWithMontPrefix_throws:
  assumes "parseOlxAdDateWithMontPrefix e (Some month) (Some day) = Inl err"
  shows "err = UnrecognizedMonthPrefix
         \<and> mapMonthPrefixToMonth (take 3 month) = Inl UnrecognizedMonthPrefix
         \<and> strictEq (toNumber day) (parseInt10 day)"
  using assms
  by (auto simp: parseOlxAdDateWithMontPrefix_def Let_def parseIntArg_def toNumberArg_def
        split: if_splits sum.splits dest: mapMonthPrefixToMonth_error)

text \<open>
  C7 (amended). A text of more than two tokens (between spaces) is returned unchanged, as
  a string. A text of exactly two tokens whose day token fails the numeric check, or
  whose first token is \<open>dzisiaj\<close> or \<open>wczoraj\<close> and whose hour or minute fails it, is
  returned as a string too, without an error: after \<open>dzisiaj\<close> or \<open>wczoraj\<close>, and for a
  month token of at most three characters, that string is the two tokens joined by one
  space. With exactly two tokens the only error is the unrecognised month prefix, and it
  is raised only after the day token has passed the numeric check.
\<close>

theorem parseOlxAdTime_unparsed:
  "(length (splitTokens olxTime) > 2 \<longrightarrow> parseOlxAdTime e olxTime = Inr (StrV olxTime))
   \<and> (splitTokens olxTime = [day, month] \<and> day \<noteq> str ''dzisiaj'' \<and> day \<noteq> str ''wczoraj''
        \<and> \<not> strictEq (toNumber day) (parseInt10 day)
      \<longrightarrow> (\<exists>s. parseOlxAdTime e olxTime = Inr (StrV s))
          \<and> (length month \<le> 3 \<longrightarrow>
               parseOlxAdTime e olxTime = Inr (StrV (day @ str '' '' @ month))))
   \<and> (splitTokens olxTime = [w, time] \<and> (w = str ''dzisiaj'' \<or> w = str ''wczoraj'')
        \<and> (\<not> strictEq (parseIntArg (elemAt (splitOn 58 time) 0))
                 (toNumberArg (elemAt (splitOn 58 time) 0))
           \<or> \<not> strictEq (parseIntArg (elemAt (splitOn 58 time) 1))
                 (toNumberArg (elemAt (splitOn 58 time) 1)))
      \<longrightarrow> parseOlxAdTime e olxTime = Inr (StrV (w @ str '' '' @ time)))
   \<and> (length (splitTokens olxTime) = 2 \<and> parseOlxAdTime e olxTime = Inl err
      \<longrightarrow> err = UnrecognizedMonthPrefix
          \<and> mapMonthPrefixToMonth (take 3 (splitTokens olxTime ! 1))
              = Inl UnrecognizedMonthPrefix
          \<and> strictEq (toNumber (splitTokens olxTime ! 0)) (parseInt10 (splitTokens olxTime ! 0)))"
proof -
  have 1: "length (splitTokens olxTime) > 2 \<longrightarrow> parseOlxAdTime e olxTime = Inr (StrV olxTime)"
    by (simp add: parseOlxAdTime_def)
  have 2: "splitTokens olxTime = [day, month] \<and> day \<noteq> str ''dzisiaj'' \<and> day \<noteq> str ''wczoraj''
        \<and> \<not> strictEq (toNumber day) (parseInt10 day)
      \<longrightarrow> (\<exists>s. parseOlxAdTime e olxTime = Inr (StrV s))
          \<and> (length month \<le> 3 \<longrightarrow>
               parseOlxAdTime e olxTime = Inr (StrV (day @ str '' '' @ month)))"
  proof
    assume a: "splitTokens olxTime = [day, month] \<and> day \<noteq> str ''dzisiaj''
        \<and> day \<noteq> str ''wczoraj'' \<and> \<not> strictEq (toNumber day) (parseInt10 day)"
    then have r: "parseOlxAdTime e olxTime = Inr (StrV (day @ str '' '' @ take 3 month))"
      by (auto simp: parseOlxAdTime_def parseOlxAdDateWithMontPrefix_def Let_def
            parseIntArg_def toNumberArg_def toStringArg_def isNaN_def strictEq_def)
    then have "\<exists>s. parseOlxAdTime e olxTime = Inr (StrV s)" by blast
    moreover have "length month \<le> 3 \<longrightarrow>
        parseOlxAdTime e olxTime = Inr (StrV (day @ str '' '' @ month))"
      using r by simp
    ultimately show "(\<exists>s. parseOlxAdTime e olxTime = Inr (StrV s))
          \<and> (length month \<le> 3 \<longrightarrow>
               parseOlxAdTime e olxTime = Inr (StrV (day @ str '' '' @ month)))"
      by blast
  qed
  have 3: "splitTokens olxTime = [w, time] \<and> (w = str ''dzisiaj'' \<or> w = str ''wczoraj'')
        \<and> (\<not> strictEq (parseIntArg (elemAt (splitOn 58 time) 0))
                 (toNumberArg (elemAt (splitOn 58 time) 0))
           \<or> \<not> strictEq (parseIntArg (elemAt (splitOn 58 time) 1))
                 (toNumberArg (elemAt (splitOn 58 time) 1)))
      \<longrightarrow> parseOlxAdTime e olxTime = Inr (StrV (w @ str '' '' @ time))"
  proof
    assume a: "splitTokens olxTime = [w, time] \<and> (w = str ''dzisiaj'' \<or> w = str ''wczoraj'')
        \<and> (\<not> strictEq (parseIntArg (elemAt (splitOn 58 time) 0))
                 (toNumberArg (elemAt (splitOn 58 time) 0))
           \<or> \<not> strictEq (parseIntArg (elemAt (splitOn 58 time) 1))
                 (toNumberArg (elemAt (splitOn 58 time) 1)))"
    then have t: "splitTokens olxTime = [w, time]" by simp
    from a have w: "w = str ''dzisiaj'' \<or> w = str ''wczoraj''" by simp
    from a have f: "\<not> strictEq (parseIntArg (elemAt (splitOn 58 time) 0))
                 (toNumberArg (elemAt (splitOn 58 time) 0))
           \<or> \<not> strictEq (parseIntArg (elemAt (splitOn 58 time) 1))
                 (toNumberArg (elemAt (splitOn 58 time) 1))" by simp
    have "parseOlxAdTime e olxTime = parseOlxAdTimeWithTodayYesterday e w (Some time)"
      using w by (auto simp: parseOlxAdTime_def t toStringArg_def Let_def)
    also have "\<dots> = Inr (StrV (w @ str '' '' @ time))"
      using f by (auto simp: parseOlxAdTimeWithTodayYesterday_def Let_def)
    finally show "parseOlxAdTime e olxTime = Inr (StrV (w @ str '' '' @ time))" .
  qed
  have 4: "length (splitTokens olxTime) = 2 \<and> parseOlxAdTime e olxTime = Inl err
      \<longrightarrow> err = UnrecognizedMonthPrefix
          \<and> mapMonthPrefixToMonth (take 3 (splitTokens olxTime ! 1))
              = Inl UnrecognizedMonthPrefix
          \<and> strictEq (toNumber (splitTokens olxTime ! 0)) (parseInt10 (splitTokens olxTime ! 0))"
  proof
    assume a: "length (splitTokens olxTime) = 2 \<and> parseOlxAdTime e olxTime = Inl err"
    then obtain x y where t: "splitTokens olxTime = [x, y]"
      by (cases "splitTokens olxTime"; cases "tl (splitTokens olxTime)") auto
    from a have r: "parseOlxAdTime e olxTime = Inl err" by simp
    have "parseOlxAdDateWithMontPrefix e (Some y) (Some x) = Inl err"
      using r parseOlxAdTimeWithTodayYesterday_returns [of e x y err]
      by (auto simp: parseOlxAdTime_def t toStringArg_def Let_def split: if_splits)
    from parseOlxAdDateWithMontPrefix_throws [OF this]
    show "err = UnrecognizedMonthPrefix
          \<and> mapMonthPrefixToMonth (take 3 (splitTokens olxTime ! 1))
              = Inl UnrecognizedMonthPrefix
          \<and> strictEq (toNumber (splitTokens olxTime ! 0)) (parseInt10 (splitTokens olxTime ! 0))"
      by (simp add: t)
  qed
  from 1 2 3 4 show ?thesis by (intro conjI)
qed

text \<open>
  The claim as stated fails: a text that fails the numeric check is rebuilt from its
  tokens, so with two spaces between the tokens it does not come back unchanged.
\<close>

theorem parseOlxAdTime_original_counterexample:
  "parseOlxAdTime (sampleEnv 1704448800000 2024 0 5) (str ''dzisiaj  1x:05'')
     = Inr (StrV (str ''dzisiaj 1x:05''))
   \<and> str ''dzisiaj 1x:05'' \<noteq> str ''dzisiaj  1x:05''
   \<and> parseOlxAdTime (sampleEnv 1704448800000 2024 0 5) (str ''xx  gru'')
     = Inr (StrV (str ''xx gru''))
   \<and> str ''xx gru'' \<noteq> str ''xx  gru''"
  by (simp add: parseOlxAdTime_def splitTokens_def str_def parseOlxAdDateWithMontPrefix_def
        parseOlxAdTimeWithTodayYesterday_def parseIntArg_def parseInt10_def trimStart_def
        isStrWhiteSpaceChar_def isDigit_def isNaN_def toStringArg_def strictEq_def
        toNumberArg_def toNumber_def trim_def strUnsignedDecimalLiteral_def exponentPart_def)

theorem parseOlxAdTime_unparsed_witness:
  "parseOlxAdTime (sampleEnv 1704448800000 2024 0 5) (str ''a b c'') = Inr (StrV (str ''a b c''))
   \<and> parseOlxAdTime (sampleEnv 1704448800000 2024 0 5) (str ''yy   lut'')
       = Inr (StrV (str ''yy lut''))
   \<and> parseOlxAdTime (sampleEnv 1704448800000 2024 0 5) (str ''dzisiaj 1x:05'')
       = Inr (StrV (str ''dzisiaj 1x:05''))
   \<and> parseOlxAdTime (sampleEnv 1704448800000 2024 0 5) (str ''12 abc'')
       = Inl UnrecognizedMonthPrefix"
proof -
  let ?e = "sampleEnv 1704448800000 2024 0 5"
  have t1: "length (splitTokens (str ''a b c'')) > 2"
    by (simp add: splitTokens_def str_def)
  have t2: "splitTokens (str ''yy   lut'') = [str ''yy'', str ''lut'']
      \<and> str ''yy'' \<noteq> str ''dzisiaj'' \<and> str ''yy'' \<noteq> str ''wczoraj''
      \<and> \<not> strictEq (toNumber (str ''yy'')) (parseInt10 (str ''yy''))"
    by (simp add: splitTokens_def str_def strictEq_def parseInt10_def trimStart_def
          isStrWhiteSpaceChar_def isDigit_def)
  have l2: "length (str ''lut'') \<le> 3" by (simp add: str_def)
  have t3: "splitTokens (str ''dzisiaj 1x:05'') = [str ''dzisiaj'', str ''1x:05'']
      \<and> (str ''dzisiaj'' = str ''dzisiaj'' \<or> str ''dzisiaj'' = str ''wczoraj'')
      \<and> (\<not> strictEq (parseIntArg (elemAt (splitOn 58 (str ''1x:05'')) 0))
                 (toNumberArg (elemAt (splitOn 58 (str ''1x:05'')) 0))
           \<or> \<not> strictEq (parseIntArg (elemAt (splitOn 58 (str ''1x:05'')) 1))
                 (toNumberArg (elemAt (splitOn 58 (str ''1x:05'')) 1)))"
    by (simp add: splitTokens_def str_def strictEq_def toNumberArg_def toNumber_def trim_def
          isStrWhiteSpaceChar_def isDigit_def strUnsignedDecimalLiteral_def exponentPart_def)
  have d: "str ''12'' \<noteq> []" "\<forall>c \<in> set (str ''12''). isDigit c"
    "digitsValue (str ''12'') < 2 ^ 53"
    by (simp_all add: str_def isDigit_def digitsValue_def)
  have s4: "splitTokens (str ''12 abc'') = [str ''12'', str ''abc'']"
    by (simp add: splitTokens_def str_def)
  have w4: "str ''12'' \<noteq> str ''dzisiaj''" "str ''12'' \<noteq> str ''wczoraj''"
    by (simp_all add: str_def)
  have m4: "mapMonthPrefixToMonth (take 3 (str ''abc'')) = Inl UnrecognizedMonthPrefix"
    by (simp add: mapMonthPrefixToMonth_def str_def)
  have r4: "\<exists>err. parseOlxAdTime ?e (str ''12 abc'') = Inl err"
    using w4
    by (simp add: parseOlxAdTime_def s4 parseOlxAdDateWithMontPrefix_def parseIntArg_def
          toNumberArg_def parseInt10_digits [OF d] toNumber_digits [OF d] isNaN_def
          strictEq_def m4 Let_def)
  then obtain err where e4: "parseOlxAdTime ?e (str ''12 abc'') = Inl err" ..
  have t4: "length (splitTokens (str ''12 abc'')) = 2" by (simp add: s4)
  note a = parseOlxAdTime_unparsed [where olxTime = "str ''a b c''" and e = ?e]
  note b = parseOlxAdTime_unparsed [where olxTime = "str ''yy   lut''" and day = "str ''yy''"
      and month = "str ''lut''" and e = ?e]
  note c = parseOlxAdTime_unparsed [where olxTime = "str ''dzisiaj 1x:05''" and w = "str ''dzisiaj''"
      and time = "str ''1x:05''" and e = ?e]
  note d = parseOlxAdTime_unparsed [where olxTime = "str ''12 abc''" and e = ?e and err = err]
  have 1: "parseOlxAdTime ?e (str ''a b c'') = Inr (StrV (str ''a b c''))"
    using a t1 by blast
  have 2: "parseOlxAdTime ?e (str ''yy   lut'') = Inr (StrV (str ''yy'' @ str '' '' @ str ''lut''))"
    using b t2 l2 by blast
  have 3: "parseOlxAdTime ?e (str ''dzisiaj 1x:05'') = Inr (StrV (str ''dzisiaj'' @ str '' '' @ str ''1x:05''))"
    using c t3 by blast
  have 4: "err = UnrecognizedMonthPrefix" using d t4 e4 by blast
  show ?thesis using 1 2 3 4 e4 by (simp add: str_def)
qed

subsection \<open>The cutoff window\<close>

text \<open>
  C8. An entry is stale exactly when \<open>now - (24h + 30s)\<close> is later than
  \<open>timestamp - (sameDayToken ? 0 : 24h)\<close>; with the same-day token a timestamp of
  \<open>now - 24h - 31s\<close> is stale and one of \<open>now - 24h - 29s\<close> is not.
\<close>

theorem isStale_window:
  "isStale now timestamp sameDayToken
     = (now - (24 * 3600000 + 30000) > timestamp - (if sameDayToken then 0 else 24 * 3600000))
   \<and> isStale now (now - 24 * 3600000 - 31000) True
   \<and> \<not> isStale now (now - 24 * 3600000 - 29000) True"
  by (simp add: isStale_def DAY_MS_def)

theorem isStale_window_witness:
  "isStale 1704880800000 1704794369000 True \<and> \<not> isStale 1704880800000 1704794371000 True
   \<and> \<not> isStale 1704880800000 1704880790000 False"
  using isStale_window [of 1704880800000 1704794369000 True]
    isStale_window [of 1704880800000 1704794371000 True]
    isStale_window [of 1704880800000 1704880790000 False]
  by simp
subsection \<open>Extraction of one page\<close>

lemma parseOlxPageAds_loop_append:
  "parseOlxPageAds_loop e dbg (xs @ ys) i acc =
     (case parseOlxPageAds_loop e dbg xs i acc of
        Inl err \<Rightarrow> Inl err
      | Inr (acc', done) \<Rightarrow>
          if done then Inr (acc', True)
          else parseOlxPageAds_loop e dbg ys (i + length xs) acc')"
  by (induction xs arbitrary: i acc) (auto split: sum.splits parsed.splits)

lemma parseOlxPageAds_loop_kept:
  "parseOlxPageAds_loop e dbg xs i acc = Inr (anns, False) \<Longrightarrow>
     \<exists>new. anns = acc @ new \<and> length new = length xs
       \<and> map url new = map href xs
       \<and> map debugIdx new = [i..<i + length xs]"
proof (induction xs arbitrary: i acc)
  case Nil
  then show ?case by simp
next
  case (Cons ad ads)
  from Cons.prems obtain a where
    step: "parseOlxPageAds_loop e dbg ads (i + 1) (acc @ [a]) = Inr (anns, False)"
    and a: "url a = href ad" "debugIdx a = i"
    by (auto simp: makeAnnouncement_def split: sum.splits parsed.splits if_splits)
  from Cons.IH [OF step] obtain new where
    n: "anns = (acc @ [a]) @ new" "length new = length ads" "map url new = map href ads"
       "map debugIdx new = [i + 1..<i + 1 + length ads]"
    by blast
  have u: "[i..<i + length (ad # ads)] = i # [i + 1..<i + 1 + length ads]"
    using upt_conv_Cons [of i "i + Suc (length ads)"] by simp
  have "map debugIdx (a # new) = [i..<i + length (ad # ads)]"
    unfolding u using n(4) a(2) by simp
  then have "anns = acc @ (a # new) \<and> length (a # new) = length (ad # ads)
       \<and> map url (a # new) = map href (ad # ads)
       \<and> map debugIdx (a # new) = [i..<i + length (ad # ads)]"
    using n(1,2,3) a(1) by simp
  then show ?case by blast
qed

lemma parseOlxPageAds_loop_keeps_all:
  assumes "\<forall>x \<in> set xs.
      (\<exists>s. parseOlxAdTime e (dtText x) = Inr (StrV s))
      \<or> (\<exists>d. parseOlxAdTime e (dtText x) = Inr (DateV d)
             \<and> \<not> isStale (nowMs e) (getTime e d) (isTodayOrYesterday (dtText x)))"
  shows "\<exists>anns. parseOlxPageAds_loop e dbg xs i acc = Inr (anns, False)"
  using assms
proof (induction xs arbitrary: i acc)
  case Nil
  then show ?case by simp
next
  case (Cons x xs)
  then have r: "\<And>i acc. \<exists>anns. parseOlxPageAds_loop e dbg xs i acc = Inr (anns, False)"
    by simp
  from Cons.prems have
    "(\<exists>s. parseOlxAdTime e (dtText x) = Inr (StrV s))
      \<or> (\<exists>d. parseOlxAdTime e (dtText x) = Inr (DateV d)
             \<and> \<not> isStale (nowMs e) (getTime e d) (isTodayOrYesterday (dtText x)))"
    by simp
  then show ?case
  proof
    assume "\<exists>s. parseOlxAdTime e (dtText x) = Inr (StrV s)"
    then obtain s where "parseOlxAdTime e (dtText x) = Inr (StrV s)" ..
    then show ?thesis using r by simp
  next
    assume "\<exists>d. parseOlxAdTime e (dtText x) = Inr (DateV d)
             \<and> \<not> isStale (nowMs e) (getTime e d) (isTodayOrYesterday (dtText x))"
    then obtain d where "parseOlxAdTime e (dtText x) = Inr (DateV d)"
      "\<not> isStale (nowMs e) (getTime e d) (isTodayOrYesterday (dtText x))" by blast
    then show ?thesis using r by simp
  qed
qed

text \<open>
  C9. When every entry before \<open>ad\<close> has a date that came back as a string, or as a
  \<open>Date\<close> that is not stale, and the date of \<open>ad\<close> is a \<open>Date\<close> judged stale,
  \<open>parseOlxPageAds\<close> returns at \<open>ad\<close> with \<open>isDone = true\<close> and exactly the announcements
  of the earlier entries (those the parse of the earlier entries alone gives), one per
  entry in document order; \<open>ad\<close> and the entries after it are dropped. An entry whose
  date text comes back as a string is kept and leaves \<open>isDone\<close> false.
\<close>

theorem parseOlxPageAds_cutoff:
  assumes earlier: "\<forall>x \<in> set earlier.
      (\<exists>s. parseOlxAdTime e (dtText x) = Inr (StrV s))
      \<or> (\<exists>d. parseOlxAdTime e (dtText x) = Inr (DateV d)
             \<and> \<not> isStale (nowMs e) (getTime e d) (isTodayOrYesterday (dtText x)))"
    and parsed: "parseOlxAdTime e (dtText ad) = Inr (DateV d)"
    and stale: "isStale (nowMs e) (getTime e d) (isTodayOrYesterday (dtText ad))"
  shows "\<exists>anns. parseOlxPageAds e dbg (earlier @ ad # later) = Inr (anns, True)
       \<and> parseOlxPageAds e dbg earlier = Inr (anns, False)
       \<and> length anns = length earlier
       \<and> map url anns = map href earlier
       \<and> map debugIdx anns = [0..<length earlier]
       \<and> (\<forall>raw s. parseOlxAdTime e (dtText raw) = Inr (StrV s) \<longrightarrow>
             parseOlxPageAds e dbg (earlier @ [raw])
               = Inr (anns @ [makeAnnouncement s raw dbg (length earlier)], False))"
proof -
  from parseOlxPageAds_loop_keeps_all [OF earlier, of dbg 0 "[]"] obtain anns where
    a: "parseOlxPageAds e dbg earlier = Inr (anns, False)"
    by (auto simp: parseOlxPageAds_def)
  from parseOlxPageAds_loop_kept [of e dbg earlier 0 "[]" anns] a
  have k: "length anns = length earlier" "map url anns = map href earlier"
    "map debugIdx anns = [0..<length earlier]"
    by (auto simp: parseOlxPageAds_def)
  have c: "parseOlxPageAds e dbg (earlier @ ad # later) = Inr (anns, True)"
    using a parsed stale
    by (simp add: parseOlxPageAds_def parseOlxPageAds_loop_append)
  have r: "\<forall>raw s. parseOlxAdTime e (dtText raw) = Inr (StrV s) \<longrightarrow>
             parseOlxPageAds e dbg (earlier @ [raw])
               = Inr (anns @ [makeAnnouncement s raw dbg (length earlier)], False)"
    using a by (simp add: parseOlxPageAds_def parseOlxPageAds_loop_append)
  from a k c r show ?thesis by blast
qed

theorem parseOlxPageAds_cutoff_witness:
  "parseOlxPageAds (sampleEnv 1704880800000 2024 0 10) (str ''u'')
     ([sampleAd ''brak daty ogloszenia'' ''a'', sampleAd ''dzisiaj 09:30'' ''b'']
      @ sampleAd ''wczoraj 09:00'' ''c'' # [sampleAd ''dzisiaj 08:00'' ''d''])
   = Inr ([makeAnnouncement (str ''brak daty ogloszenia'')
             (sampleAd ''brak daty ogloszenia'' ''a'') (str ''u'') 0,
           makeAnnouncement [] (sampleAd ''dzisiaj 09:30'' ''b'') (str ''u'') 1], True)"
proof -
  let ?e = "sampleEnv 1704880800000 2024 0 10"
  have p1: "parseOlxAdTime ?e (str ''brak daty ogloszenia'') = Inr (StrV (str ''brak daty ogloszenia''))"
    by (simp add: parseOlxAdTime_def splitTokens_def str_def)
  have n: "parseIntArg (Some (str ''09'')) = Num 9" "toNumberArg (Some (str ''09'')) = Num 9"
    "parseIntArg (Some (str ''30'')) = Num 30" "toNumberArg (Some (str ''30'')) = Num 30"
    "parseIntArg (Some (str ''00'')) = Num 0" "toNumberArg (Some (str ''00'')) = Num 0"
    by (simp_all add: parseIntArg_def toNumberArg_def parseInt10_digits toNumber_digits
          str_def isDigit_def digitsValue_def)
  have p2: "parseOlxAdTime ?e (str ''dzisiaj 09:30'') = Inr (DateV (Date 2024 0 10 9 30))"
    using n
    by (simp add: parseOlxAdTime_def splitTokens_def parseOlxAdTimeWithTodayYesterday_def
          toStringArg_def isNaN_def strictEq_def numInt_def sampleEnv_def str_def)
  have p3: "parseOlxAdTime ?e (str ''wczoraj 09:00'') = Inr (DateV (Date 2024 0 9 9 0))"
    using n
    by (simp add: parseOlxAdTime_def splitTokens_def parseOlxAdTimeWithTodayYesterday_def
          toStringArg_def isNaN_def strictEq_def numInt_def sampleEnv_def str_def)
  have w: "isTodayOrYesterday (str ''dzisiaj 09:30'')" "isTodayOrYesterday (str ''wczoraj 09:00'')"
    by (simp_all add: isTodayOrYesterday_def str_def)
  have t: "utcTime (Date 2024 0 10 9 30) = 1704879000000" "utcTime (Date 2024 0 9 9 0) = 1704790800000"
    by (simp_all add: utcTime_def dayFromYear_def daysBeforeMonth_def inLeapYear_def)
  have g: "getTime ?e = utcTime" "nowMs ?e = 1704880800000" "toLocaleString ?e = (\<lambda>b d. [])"
    by (simp_all add: sampleEnv_def)
  have earlier: "parseOlxPageAds ?e (str ''u'')
       [sampleAd ''brak daty ogloszenia'' ''a'', sampleAd ''dzisiaj 09:30'' ''b'']
     = Inr ([makeAnnouncement (str ''brak daty ogloszenia'')
               (sampleAd ''brak daty ogloszenia'' ''a'') (str ''u'') 0,
             makeAnnouncement [] (sampleAd ''dzisiaj 09:30'' ''b'') (str ''u'') 1], False)"
    by (simp add: parseOlxPageAds_def sampleAd_def p1 p2 w t g isStale_def DAY_MS_def)
  have parsed: "parseOlxAdTime ?e (dtText (sampleAd ''wczoraj 09:00'' ''c'')) = Inr (DateV (Date 2024 0 9 9 0))"
    by (simp add: sampleAd_def p3)
  have stale: "isStale (nowMs ?e) (getTime ?e (Date 2024 0 9 9 0))
      (isTodayOrYesterday (dtText (sampleAd ''wczoraj 09:00'' ''c'')))"
    by (simp add: sampleAd_def w t g isStale_def DAY_MS_def)
  have kept: "\<forall>x \<in> set [sampleAd ''brak daty ogloszenia'' ''a'', sampleAd ''dzisiaj 09:30'' ''b''].
      (\<exists>s. parseOlxAdTime ?e (dtText x) = Inr (StrV s))
      \<or> (\<exists>d. parseOlxAdTime ?e (dtText x) = Inr (DateV d)
             \<and> \<not> isStale (nowMs ?e) (getTime ?e d) (isTodayOrYesterday (dtText x)))"
    by (simp add: sampleAd_def p1 p2 w t g isStale_def DAY_MS_def)
  from parseOlxPageAds_cutoff
    [OF kept parsed stale, of "str ''u''" "[sampleAd ''dzisiaj 08:00'' ''d'']"]
  obtain anns where
    "parseOlxPageAds ?e (str ''u'')
       ([sampleAd ''brak daty ogloszenia'' ''a'', sampleAd ''dzisiaj 09:30'' ''b'']
        @ sampleAd ''wczoraj 09:00'' ''c'' # [sampleAd ''dzisiaj 08:00'' ''d''])
     = Inr (anns, True)"
    "parseOlxPageAds ?e (str ''u'')
       [sampleAd ''brak daty ogloszenia'' ''a'', sampleAd ''dzisiaj 09:30'' ''b'']
     = Inr (anns, False)"
    by blast
  with earlier show ?thesis by simp
qed

subsection \<open>Page acquisition\<close>

lemma getPage_loop_result:
  assumes "getPage_loop b timeoutBudget pageUrl startTime retries now = Some r"
  shows "\<exists>k page. retries \<le> k \<and> loadPage b pageUrl k = Inr page \<and> r = Inr page"
proof (rule getPage_loop.raw_induct
    [where P = "\<lambda>b timeoutBudget pageUrl startTime retries now r.
                  \<exists>k page. retries \<le> k \<and> loadPage b pageUrl k = Inr page \<and> r = Inr page",
     OF _ assms])
  fix f :: "'a browser \<Rightarrow> int \<Rightarrow> jsstring \<Rightarrow> int \<Rightarrow> nat \<Rightarrow> int \<Rightarrow> (error + 'a) option"
    and b timeoutBudget pageUrl startTime retries now r
  assume IH: "\<And>b timeoutBudget pageUrl startTime retries now r.
      f b timeoutBudget pageUrl startTime retries now = Some r \<Longrightarrow>
      \<exists>k page. retries \<le> k \<and> loadPage b pageUrl k = Inr page \<and> r = Inr page"
  assume step: "(let now1 = now + gotoTime b pageUrl retries
      in case loadPage b pageUrl retries of
         Inl err \<Rightarrow>
           let discarded =
                 if timeoutBudget < now1 - startTime
                 then Some ScrapingExceeded else None;
               retries1 = retries + 1;
               timeout = (if retries1 < 15 then int retries1 else 15) * 1000
           in f b timeoutBudget pageUrl startTime retries1 (now1 + timeout)
         | Inr page \<Rightarrow> Some (Inr page)) = Some r"
  show "\<exists>k page. retries \<le> k \<and> loadPage b pageUrl k = Inr page \<and> r = Inr page"
  proof (cases "loadPage b pageUrl retries")
    case (Inr page)
    with step have "r = Inr page" by (simp add: Let_def)
    with Inr show ?thesis by blast
  next
    case (Inl err)
    with step obtain n' where
      "f b timeoutBudget pageUrl startTime (retries + 1) n' = Some r"
      by (auto simp: Let_def)
    from IH [OF this] obtain k page where
      "retries + 1 \<le> k" "loadPage b pageUrl k = Inr page" "r = Inr page" by blast
    then have "retries \<le> k \<and> loadPage b pageUrl k = Inr page \<and> r = Inr page" by simp
    then show ?thesis by blast
  qed
qed

text \<open>
  The loop does return when a load succeeds: after any number of failed loads, the first
  successful one ends it with that page, however long the failures took.
\<close>

lemma getPage_first_success:
  assumes "\<forall>j < k. \<exists>err. loadPage b pageUrl (retries + j) = Inl err"
    and "loadPage b pageUrl (retries + k) = Inr page"
  shows "getPage_loop b timeoutBudget pageUrl startTime retries now = Some (Inr page)"
  using assms
proof (induction k arbitrary: retries now)
  case 0
  then show ?case by (subst getPage_loop.simps) (simp add: Let_def)
next
  case (Suc k)
  from Suc.prems(1) obtain err where e: "loadPage b pageUrl retries = Inl err"
    by (metis add.right_neutral zero_less_Suc)
  have a: "\<forall>j<k. \<exists>err. loadPage b pageUrl (Suc retries + j) = Inl err"
  proof (intro allI impI)
    fix j assume "j < k"
    then have "Suc j < Suc k" by simp
    with Suc.prems(1) have "\<exists>err. loadPage b pageUrl (retries + Suc j) = Inl err" by blast
    then show "\<exists>err. loadPage b pageUrl (Suc retries + j) = Inl err" by simp
  qed
  have b: "loadPage b pageUrl (Suc retries + k) = Inr page" using Suc.prems(2) by simp
  show ?case
    by (subst getPage_loop.simps) (simp add: Let_def e Suc.IH [OF a b])
qed

text \<open>
  C1 (code defect). The claim asks \<open>getPage\<close> to stop with a timeout error once the elapsed
  time exceeds the budget. The source builds the error object in the \<open>catch\<close> block and
  neither throws nor returns it, so the check changes nothing: when every load of the url
  fails, \<open>getPage\<close> never returns and never throws, whatever the budget and however much
  time has passed.
\<close>

theorem getPage_retries_forever:
  assumes "\<forall>k. \<exists>err. loadPage b pageUrl k = Inl err"
  shows "getPage b cfg pageUrl startTime = None"
proof (cases "getPage b cfg pageUrl startTime")
  case None
  then show ?thesis .
next
  case (Some r)
  then have "getPage_loop b (scrapeSiteTimeout cfg) pageUrl startTime 0 startTime = Some r"
    by (simp add: getPage_def)
  from getPage_loop_result [OF this] obtain k page where "loadPage b pageUrl k = Inr page"
    by blast
  with assms show ?thesis by (metis sum.distinct(1))
qed

theorem getPage_retries_forever_witness:
  "getPage sampleBrowser503 sampleConfig (str ''olx'') 0 = None"
proof -
  have "\<forall>k. \<exists>err. loadPage sampleBrowser503 (str ''olx'') k = Inl err"
    by (simp add: loadPage_def sampleBrowser503_def)
  from getPage_retries_forever [OF this] show ?thesis .
qed

subsection \<open>The crawl of one site\<close>

lemma sample_today:
  "parseOlxAdTime sampleNow (str ''dzisiaj 09:30'') = Inr (DateV (Date 2024 0 10 9 30))"
proof -
  have n: "parseIntArg (Some (str ''09'')) = Num 9" "toNumberArg (Some (str ''09'')) = Num 9"
    "parseIntArg (Some (str ''30'')) = Num 30" "toNumberArg (Some (str ''30'')) = Num 30"
    by (simp_all add: parseIntArg_def toNumberArg_def parseInt10_digits toNumber_digits
          str_def isDigit_def digitsValue_def)
  show ?thesis
    using n
    by (simp add: parseOlxAdTime_def splitTokens_def parseOlxAdTimeWithTodayYesterday_def
          toStringArg_def isNaN_def strictEq_def numInt_def sampleEnv_def sampleNow_def str_def)
qed

lemma sample_bad_month:
  "parseOlxAdTime sampleNow (str ''12 abc'') = Inl UnrecognizedMonthPrefix"
proof -
  have d: "str ''12'' \<noteq> []" "\<forall>c \<in> set (str ''12''). isDigit c"
    "digitsValue (str ''12'') < 2 ^ 53"
    by (simp_all add: str_def isDigit_def digitsValue_def)
  have t: "splitTokens (str ''12 abc'') = [str ''12'', str ''abc'']"
    by (simp add: splitTokens_def str_def)
  have m: "mapMonthPrefixToMonth (take 3 (str ''abc'')) = Inl UnrecognizedMonthPrefix"
    by (simp add: mapMonthPrefixToMonth_def str_def)
  have w: "str ''12'' \<noteq> str ''dzisiaj''" "str ''12'' \<noteq> str ''wczoraj''"
    by (simp_all add: str_def)
  show ?thesis
    using w
    by (simp add: parseOlxAdTime_def t parseOlxAdDateWithMontPrefix_def parseIntArg_def
          toNumberArg_def parseInt10_digits [OF d] toNumber_digits [OF d] isNaN_def
          strictEq_def m Let_def)
qed

lemma samplePage1_ads:
  "getOlxPageAds sampleNow (str ''olx'') samplePage1
     = Inr ([makeAnnouncement [] (sampleAd ''dzisiaj 09:30'' ''a'') (str ''olx'') 0], False)"
proof -
  have w: "isTodayOrYesterday (str ''dzisiaj 09:30'')"
    by (simp add: isTodayOrYesterday_def str_def)
  have t: "utcTime (Date 2024 0 10 9 30) = 1704879000000"
    by (simp add: utcTime_def dayFromYear_def daysBeforeMonth_def inLeapYear_def)
  have g: "getTime sampleNow = utcTime" "nowMs sampleNow = 1704880800000"
    "toLocaleString sampleNow = (\<lambda>b d. [])"
    by (simp_all add: sampleEnv_def sampleNow_def)
  show ?thesis
    by (simp add: getOlxPageAds_def parseOlxPageAds_def samplePage1_def sampleAd_def
          sample_today w t g isStale_def DAY_MS_def)
qed

lemma samplePage2_ads:
  "getOlxPageAds sampleNow (str ''olx'') samplePage2 = Inl UnrecognizedMonthPrefix"
  by (simp add: getOlxPageAds_def parseOlxPageAds_def samplePage2_def sampleAd_def
        sample_bad_month)

lemma samplePage1_next:
  "getOlxUrlsToNextPages (str ''olx'') samplePage1 = [str ''olx&page=2'', str ''olx&page=3'']"
  by (simp add: getOlxUrlsToNextPages_def getOlxUrlsToNextPages_loop_eq samplePage1_def
        upt_conv_Cons showNat_digit str_def)

lemma sample_urls_distinct:
  "str ''olx'' \<noteq> str ''olx&page=2''" "str ''olx'' \<noteq> str ''olx&page=3''"
  "str ''olx&page=2'' \<noteq> str ''olx&page=3''" "str ''olx&page=3'' \<noteq> str ''olx&page=2''"
  by (simp_all add: str_def)

lemma getSiteOffers_loop_rest:
  assumes "0 < scrapedPagesCount"
    and "\<forall>v \<in> set pre. acquire v = Returns (pg v) \<and> getPageAds sc (pg v) = Inr (offs v, False)"
    and "acquire u = Throws err"
  shows "getSiteOffers_loop acquire sc acc (hd (pre @ [u])) (tl (pre @ u # post)) scrapedPagesCount
           = Returns (acc @ concat (map offs pre), Some err)"
  using assms(1,2)
proof (induction pre arbitrary: acc scrapedPagesCount)
  case Nil
  then show ?case using assms(3) by (simp add: getSiteOffers_loop.simps)
next
  case (Cons w pre)
  have w: "acquire w = Returns (pg w)" "getPageAds sc (pg w) = Inr (offs w, False)"
    using Cons.prems(2) by simp_all
  have r: "\<forall>v \<in> set pre. acquire v = Returns (pg v) \<and> getPageAds sc (pg v) = Inr (offs v, False)"
    using Cons.prems(2) by simp
  have h: "hd (pre @ u # post) = hd (pre @ [u])" by (cases pre) simp_all
  have "getSiteOffers_loop acquire sc acc w (pre @ u # post) scrapedPagesCount
      = getSiteOffers_loop acquire sc (acc @ offs w) (hd (pre @ [u])) (tl (pre @ u # post))
          (scrapedPagesCount + 1)"
    using Cons.prems(1)
    by (subst getSiteOffers_loop.simps) (simp add: w Let_def h)
  also have "\<dots> = Returns ((acc @ offs w) @ concat (map offs pre), Some err)"
    by (rule Cons.IH) (simp_all add: r)
  finally show ?case by simp
qed

text \<open>
  With \<open>getPage\<close> as it is written the \<open>catch\<close> of \<open>getSiteOffers\<close> is never entered:
  \<open>getPage\<close> does not throw, so \<open>getSiteOffers\<close> never returns an error beside its offers.
\<close>

lemma getPageOutcome_never_throws: "getPageOutcome b cfg startTime pageUrl \<noteq> Throws err"
proof
  assume t: "getPageOutcome b cfg startTime pageUrl = Throws err"
  then have "getPage b cfg pageUrl startTime = Some (Inl err)"
    by (simp add: getPageOutcome_def split: option.splits sum.splits)
  then have "getPage_loop b (scrapeSiteTimeout cfg) pageUrl startTime 0 startTime = Some (Inl err)"
    by (simp add: getPage_def)
  from getPage_loop_result [OF this] show False by auto
qed

lemma getSiteOffers_loop_error_value:
  assumes "getSiteOffers_loop acquire sc offers pageUrl rest n = Returns (result, Some err)"
  shows "\<exists>u. acquire u = Throws err"
  using assms
proof (induction acquire sc offers pageUrl rest n rule: getSiteOffers_loop.induct)
  case (1 acquire siteScraper offers pageUrl rest scrapedPagesCount)
  note unfold = getSiteOffers_loop.simps [of acquire siteScraper offers pageUrl rest scrapedPagesCount]
  show ?case
  proof (cases "acquire pageUrl")
    case (Throws e)
    with "1.prems" show ?thesis by (auto simp: unfold)
  next
    case NeverSettles
    with "1.prems" show ?thesis by (simp add: unfold)
  next
    case (Returns currentPage)
    show ?thesis
    proof (cases "getPageAds siteScraper currentPage")
      case (Inl e)
      with Returns "1.prems" show ?thesis by (simp add: unfold)
    next
      case (Inr r)
      obtain pageOffers isDone where r: "r = (pageOffers, isDone)" by (cases r)
      define pageUrls where "pageUrls =
         (if \<not> isDone \<and> scrapedPagesCount + 1 = 1
          then rest @
            (if scrapperDataType siteScraper = Html
             then getUrlsToNextPages siteScraper (Inl currentPage)
             else getUrlsToNextPages siteScraper (Inr pageUrl))
          else rest)"
      have u: "getSiteOffers_loop acquire siteScraper offers pageUrl rest scrapedPagesCount
          = (if \<not> isDone \<and> length pageUrls > 0
             then getSiteOffers_loop acquire siteScraper (offers @ pageOffers) (hd pageUrls)
                    (tl pageUrls) (scrapedPagesCount + 1)
             else Returns (offers @ pageOffers, None))"
        unfolding pageUrls_def
        by (subst unfold)
          (simp only: Returns Inr r outcome.case sum.case prod.case Let_def)
      show ?thesis
      proof (cases "\<not> isDone \<and> length pageUrls > 0")
        case True
        with "1.prems" u have e:
          "getSiteOffers_loop acquire siteScraper (offers @ pageOffers) (hd pageUrls)
             (tl pageUrls) (scrapedPagesCount + 1) = Returns (result, Some err)"
          by simp
        show ?thesis
          by (rule "1.IH" [OF Returns Inr r [symmetric] refl refl refl,
                folded pageUrls_def, OF True e])
      next
        case False
        with "1.prems" u show ?thesis by (auto split: if_splits)
      qed
    qed
  qed
qed

lemma getSiteOffers_never_returns_error:
  "getSiteOffers (getPageOutcome b cfg startTime) cfg sc \<noteq> Returns (result, Some err)"
  using getSiteOffers_loop_error_value [of "getPageOutcome b cfg startTime" sc "[]" _ "[]" 0 result err]
    getPageOutcome_never_throws [of b cfg startTime _ err]
  by (auto simp: getSiteOffers_def)

text \<open>
  C3 (amended). When the call of \<open>getPage\<close> for a page throws, \<open>getSiteOffers\<close> returns that
  error together with the offers of all the pages processed before it, in order: the
  offers of the first page and of the following pages \<open>pre\<close> when the failing url \<open>u\<close> is
  one of the next-page urls, and no offers when the first url fails.
\<close>

theorem getSiteOffers_load_failure:
  assumes first: "acquire (urls cfg (serviceName sc)) = Returns p0"
      "getPageAds sc p0 = Inr (offs0, False)"
    and nextUrls: "(if scrapperDataType sc = Html then getUrlsToNextPages sc (Inl p0)
                 else getUrlsToNextPages sc (Inr (urls cfg (serviceName sc)))) = pre @ u # post"
    and pre: "\<forall>v \<in> set pre. acquire v = Returns (pg v) \<and> getPageAds sc (pg v) = Inr (offs v, False)"
    and fail: "acquire u = Throws err"
  shows "getSiteOffers acquire cfg sc = Returns (offs0 @ concat (map offs pre), Some err)
       \<and> (\<forall>acquire'. acquire' (urls cfg (serviceName sc)) = Throws err \<longrightarrow>
             getSiteOffers acquire' cfg sc = Returns ([], Some err))"
proof -
  have "getSiteOffers acquire cfg sc
      = getSiteOffers_loop acquire sc offs0 (hd (pre @ [u])) (tl (pre @ u # post)) 1"
  proof -
    have h: "hd (pre @ u # post) = hd (pre @ [u])" by (cases pre) simp_all
    show ?thesis
      unfolding getSiteOffers_def
      by (subst getSiteOffers_loop.simps) (simp add: first nextUrls Let_def h)
  qed
  also have "\<dots> = Returns (offs0 @ concat (map offs pre), Some err)"
    by (rule getSiteOffers_loop_rest [OF _ pre fail]) simp
  finally have a: "getSiteOffers acquire cfg sc = Returns (offs0 @ concat (map offs pre), Some err)" .
  have b: "\<forall>acquire'. acquire' (urls cfg (serviceName sc)) = Throws err \<longrightarrow>
             getSiteOffers acquire' cfg sc = Returns ([], Some err)"
    by (simp add: getSiteOffers_def getSiteOffers_loop.simps)
  from a b show ?thesis by blast
qed

theorem getSiteOffers_load_failure_witness:
  "getSiteOffers sampleSiteOffline sampleConfig (olxSiteScraper sampleNow (str ''olx''))
     = Returns ([makeAnnouncement [] (sampleAd ''dzisiaj 09:30'' ''a'') (str ''olx'') 0,
                 makeAnnouncement [] (sampleAd ''dzisiaj 09:30'' ''a'') (str ''olx'') 0],
                Some (LoadError (str ''olx&page=3'')))"
proof -
  let ?sc = "olxSiteScraper sampleNow (str ''olx'')"
  let ?a = "makeAnnouncement [] (sampleAd ''dzisiaj 09:30'' ''a'') (str ''olx'') 0"
  have first: "sampleSiteOffline (urls sampleConfig (serviceName ?sc)) = Returns samplePage1"
    "getPageAds ?sc samplePage1 = Inr ([?a], False)"
    by (simp_all add: sampleSiteOffline_def sampleConfig_def olxSiteScraper_def
          sample_urls_distinct samplePage1_ads)
  have nextUrls: "(if scrapperDataType ?sc = Html then getUrlsToNextPages ?sc (Inl samplePage1)
       else getUrlsToNextPages ?sc (Inr (urls sampleConfig (serviceName ?sc))))
      = [str ''olx&page=2''] @ str ''olx&page=3'' # []"
    by (simp add: olxSiteScraper_def samplePage1_next)
  have pre: "\<forall>v \<in> set [str ''olx&page=2'']. sampleSiteOffline v = Returns ((\<lambda>v. samplePage1) v)
        \<and> getPageAds ?sc ((\<lambda>v. samplePage1) v) = Inr ((\<lambda>v. [?a]) v, False)"
    by (simp add: sampleSiteOffline_def sample_urls_distinct olxSiteScraper_def samplePage1_ads)
  have fail: "sampleSiteOffline (str ''olx&page=3'') = Throws (LoadError (str ''olx&page=3''))"
    by (simp add: sampleSiteOffline_def)
  from getSiteOffers_load_failure [OF first nextUrls pre fail]
  show ?thesis by simp
qed

text \<open>
  The claim as stated fails for an extraction failure: the first page of the sample site
  yields one offer, the entry of the second page has an unrecognised month prefix, and
  \<open>getSiteOffers\<close> ends with that error as an exception; the offer of the first page is not
  returned.
\<close>

theorem getSiteOffers_extraction_counterexample:
  "getSiteOffers sampleSite sampleConfig (olxSiteScraper sampleNow (str ''olx''))
     = Throws UnrecognizedMonthPrefix"
proof -
  have s: "sampleSite (str ''olx'') = Returns samplePage1"
    "sampleSite (str ''olx&page=2'') = Returns samplePage2"
    by (simp_all add: sampleSite_def sample_urls_distinct)
  have "getSiteOffers sampleSite sampleConfig (olxSiteScraper sampleNow (str ''olx''))
      = getSiteOffers_loop sampleSite (olxSiteScraper sampleNow (str ''olx''))
          [makeAnnouncement [] (sampleAd ''dzisiaj 09:30'' ''a'') (str ''olx'') 0]
          (str ''olx&page=2'') [str ''olx&page=3''] 1"
    unfolding getSiteOffers_def
    by (subst getSiteOffers_loop.simps)
      (simp add: olxSiteScraper_def sampleConfig_def s samplePage1_ads samplePage1_next)
  also have "\<dots> = Throws UnrecognizedMonthPrefix"
    by (subst getSiteOffers_loop.simps) (simp add: olxSiteScraper_def s samplePage2_ads)
  finally show ?thesis .
qed

subsection \<open>Saving the offers of one site\<close>

text \<open>
  C10. When the page loop returns an error beside the offers gathered so far,
  \<open>scrapeSiteOffers\<close> does exactly what it does for a crawl that returned the same offers
  and no error: the error is not rethrown and no line is logged for it; when the file
  system does not fail, the offers are written to the file of the site and counted in the
  \<open>number of offers\<close> line.
\<close>

theorem scrapeSiteOffers_ignores_error:
  assumes "getSiteOffersOf siteName = Returns (offers, Some err)"
    and "completed siteName = Returns (offers, None)"
  shows "scrapeSiteOffers getSiteOffersOf cfg fs siteName w
           = scrapeSiteOffers completed cfg fs siteName w
       \<and> (ensurePathExists fs siteName = None \<and> writeFile fs siteName = None \<longrightarrow>
            fst (scrapeSiteOffers getSiteOffersOf cfg fs siteName w) = Returns ()
            \<and> files (snd (scrapeSiteOffers getSiteOffersOf cfg fs siteName w)) siteName
                = Some offers
            \<and> logLines (snd (scrapeSiteOffers getSiteOffersOf cfg fs siteName w))
                = logLines w @ [AboutToSave siteName]
                  @ (if isDev cfg \<and> filter missingData offers \<noteq> [] then [MissingData siteName]
                     else [])
                  @ [NumberOfOffers siteName (length offers)])"
  using assms
  by (simp add: scrapeSiteOffers_def saveSiteOffers_def validateOffers_def Let_def)

theorem scrapeSiteOffers_ignores_error_witness:
  "scrapeSiteOffers
     (\<lambda>s. Returns ([makeAnnouncement [] (sampleAd ''dzisiaj 09:30'' ''a'') s 0],
                   Some (LoadError (str ''olx&page=2''))))
     sampleConfig sampleFs (str ''olx'') emptyWorld
   = scrapeSiteOffers
       (\<lambda>s. Returns ([makeAnnouncement [] (sampleAd ''dzisiaj 09:30'' ''a'') s 0], None))
       sampleConfig sampleFs (str ''olx'') emptyWorld
   \<and> fst (scrapeSiteOffers
        (\<lambda>s. Returns ([makeAnnouncement [] (sampleAd ''dzisiaj 09:30'' ''a'') s 0],
                      Some (LoadError (str ''olx&page=2''))))
        sampleConfig sampleFs (str ''olx'') emptyWorld) = Returns ()
   \<and> logLines (snd (scrapeSiteOffers
        (\<lambda>s. Returns ([makeAnnouncement [] (sampleAd ''dzisiaj 09:30'' ''a'') s 0],
                      Some (LoadError (str ''olx&page=2''))))
        sampleConfig sampleFs (str ''olx'') emptyWorld))
     = [AboutToSave (str ''olx''), NumberOfOffers (str ''olx'') 1]"
proof -
  let ?a = "makeAnnouncement [] (sampleAd ''dzisiaj 09:30'' ''a'') (str ''olx'') 0"
  let ?failed = "\<lambda>s. Returns ([makeAnnouncement [] (sampleAd ''dzisiaj 09:30'' ''a'') s 0],
                   Some (LoadError (str ''olx&page=2'')))"
  let ?completed = "\<lambda>s. Returns ([makeAnnouncement [] (sampleAd ''dzisiaj 09:30'' ''a'') s 0],
                   None :: error option)"
  have r: "?failed (str ''olx'') = Returns ([?a], Some (LoadError (str ''olx&page=2'')))"
    by simp
  have c: "?completed (str ''olx'') = Returns ([?a], None)" by simp
  have f: "ensurePathExists sampleFs (str ''olx'') = None \<and> writeFile sampleFs (str ''olx'') = None"
    by (simp add: sampleFs_def)
  note t = scrapeSiteOffers_ignores_error
    [where getSiteOffersOf = ?failed and completed = ?completed and siteName = "str ''olx''"
       and offers = "[?a]" and err = "LoadError (str ''olx&page=2'')" and cfg = sampleConfig
       and fs = sampleFs and w = emptyWorld, OF r c]
  from t have 1: "scrapeSiteOffers ?failed sampleConfig sampleFs (str ''olx'') emptyWorld
      = scrapeSiteOffers ?completed sampleConfig sampleFs (str ''olx'') emptyWorld"
    by (rule conjunct1)
  from t f have 2: "fst (scrapeSiteOffers ?failed sampleConfig sampleFs (str ''olx'') emptyWorld)
      = Returns ()"
    by blast
  from t f have "logLines (snd (scrapeSiteOffers ?failed sampleConfig sampleFs (str ''olx'')
        emptyWorld))
      = logLines emptyWorld @ [AboutToSave (str ''olx'')]
        @ (if isDev sampleConfig \<and> filter missingData [?a] \<noteq> []
           then [MissingData (str ''olx'')] else [])
        @ [NumberOfOffers (str ''olx'') (length [?a])]"
    by blast
  then have 3: "logLines (snd (scrapeSiteOffers ?failed sampleConfig sampleFs (str ''olx'')
        emptyWorld)) = [AboutToSave (str ''olx''), NumberOfOffers (str ''olx'') 1]"
    by (simp add: sampleConfig_def emptyWorld_def)
  from 1 2 3 show ?thesis by blast
qed

subsection \<open>The run over the site list\<close>


lemma take2_drop:
  "i < length xs \<Longrightarrow>
     take 2 (drop i xs) = (if i + 1 < length xs then [xs ! i, xs ! (i + 1)] else [xs ! i])"
proof -
  assume a: "i < length xs"
  then have d: "drop i xs = xs ! i # drop (Suc i) xs" by (simp add: Cons_nth_drop_Suc)
  show ?thesis
  proof (cases "i + 1 < length xs")
    case True
    then have "drop (Suc i) xs = xs ! (Suc i) # drop (Suc (Suc i)) xs"
      by (simp add: Cons_nth_drop_Suc)
    with d True show ?thesis by (simp add: numeral_2_eq_2)
  next
    case False
    with a have "drop (Suc i) xs = []" by simp
    with d False show ?thesis by (simp add: numeral_2_eq_2)
  qed
qed

lemma scrapeOffers_loop_step:
  assumes "siteIndex < length sites"
  shows "scrapeOffers_loop crawl sites siteIndex launched =
     (case promiseAll (map crawl (take 2 (drop siteIndex sites))) of
        Returns u \<Rightarrow>
          scrapeOffers_loop crawl sites (siteIndex + 2)
            (launched @ [take 2 (drop siteIndex sites)])
      | Throws err \<Rightarrow> (launched @ [take 2 (drop siteIndex sites)], Throws err)
      | NeverSettles \<Rightarrow> (launched @ [take 2 (drop siteIndex sites)], NeverSettles))"
proof (cases "siteIndex + 1 < length sites")
  case True
  have t: "take 2 (drop siteIndex sites) = [sites ! siteIndex, sites ! (siteIndex + 1)]"
    using take2_drop [OF assms] True by simp
  show ?thesis
    unfolding t
    using assms True
    by (subst scrapeOffers_loop.simps) (simp add: Let_def del: promiseAll.simps split: outcome.splits)
next
  case False
  have t: "take 2 (drop siteIndex sites) = [sites ! siteIndex]"
    using take2_drop [OF assms] False by simp
  show ?thesis
    unfolding t
    using assms False
    by (subst scrapeOffers_loop.simps) (simp add: Let_def del: promiseAll.simps split: outcome.splits)
qed

lemma promiseAll_Returns:
  "\<forall>p \<in> set ps. p = Returns () \<Longrightarrow> promiseAll ps = Returns ()"
  by (induction ps) auto

lemma promiseAll_Throws:
  "\<exists>p \<in> set ps. \<exists>err. p = Throws err \<Longrightarrow> \<exists>err. promiseAll ps = Throws err"
proof (induction ps)
  case Nil
  then show ?case by simp
next
  case (Cons p ps)
  show ?case
  proof (cases p)
    case (Returns u)
    with Cons.prems have "\<exists>q \<in> set ps. \<exists>err. q = Throws err" by auto
    from Cons.IH [OF this] Returns show ?thesis by simp
  next
    case (Throws err)
    then show ?thesis by simp
  next
    case NeverSettles
    show ?thesis
    proof (cases "\<exists>q \<in> set ps. \<exists>err. q = Throws err")
      case True
      from Cons.IH [OF this] NeverSettles show ?thesis by auto
    next
      case False
      with Cons.prems NeverSettles show ?thesis by auto
    qed
  qed
qed



lemma scrapeOffers_loop_rejects:
  assumes "\<forall>s \<in> set pre. crawl s = Returns ()" "even (length pre)"
    and "\<exists>s \<in> set (take 2 rest). \<exists>err. crawl s = Throws err"
  shows "\<exists>err. scrapeOffers_loop crawl (before @ pre @ rest) (length before) launched
           = (launched @ consecutivePairs pre @ [take 2 rest], Throws err)"
  using assms(1,2)
proof (induction pre arbitrary: before launched rule: consecutivePairs.induct)
  case 1
  from assms(3) have ne: "rest \<noteq> []" by auto
  from assms(3) have "\<exists>p \<in> set (map crawl (take 2 rest)). \<exists>err. p = Throws err" by auto
  from promiseAll_Throws [OF this] obtain err where
    "promiseAll (map crawl (take 2 rest)) = Throws err" by blast
  then have "scrapeOffers_loop crawl (before @ [] @ rest) (length before) launched
           = (launched @ consecutivePairs [] @ [take 2 rest], Throws err)"
    using ne by (simp add: scrapeOffers_loop_step)
  then show ?case by blast
next
  case (2 x)
  then show ?case by simp
next
  case (3 x y zs)
  have "\<exists>err. scrapeOffers_loop crawl ((before @ [x, y]) @ zs @ rest) (length (before @ [x, y]))
          (launched @ [[x, y]])
        = ((launched @ [[x, y]]) @ consecutivePairs zs @ [take 2 rest], Throws err)"
    using "3.prems" by (intro "3.IH") simp_all
  then show ?case
    using "3.prems" by (simp add: scrapeOffers_loop_step)
qed








text \<open>
  A crawl that never settles (a site whose pages never load) is not rejected, yet it
  stops the schedule as well: the run stays pending at that pair.
\<close>

lemma scrapeOffers_pending_example:
  "scrapeOffers (\<lambda>s. if s = str ''a'' then NeverSettles else Returns ())
     [str ''a'', str ''b'', str ''c''] = ([[str ''a'', str ''b'']], NeverSettles)"
  by (simp add: scrapeOffers_def scrapeOffers_loop_step)

text \<open>
  C2 (amended). A site crawl that is rejected is not caught by \<open>scrapeOffers\<close>: when the
  pairs before it have been fulfilled, its own pair has been launched (so its sibling is
  crawled), the run is rejected at the \<open>await\<close> of that pair, and no site of a later pair
  is launched.
\<close>

theorem scrapeOffers_rejection_stops_run:
  assumes "\<forall>s \<in> set pre. crawl s = Returns ()" "even (length pre)"
    and "\<exists>s \<in> set (take 2 rest). \<exists>err. crawl s = Throws err"
  shows "\<exists>err. scrapeOffers crawl (pre @ rest) = (consecutivePairs pre @ [take 2 rest], Throws err)"
  using scrapeOffers_loop_rejects [OF assms, of "[]" "[]"]
  by (simp add: scrapeOffers_def)

theorem scrapeOffers_rejection_stops_run_witness:
  "\<exists>err. scrapeOffers (crawlFailingAt (str ''d''))
            [str ''a'', str ''b'', str ''c'', str ''d'', str ''e'']
          = ([[str ''a'', str ''b''], [str ''c'', str ''d'']], Throws err)"
proof -
  have p: "\<forall>s \<in> set [str ''a'', str ''b'']. crawlFailingAt (str ''d'') s = Returns ()"
    by (simp add: crawlFailingAt_def str_def)
  have e: "even (length [str ''a'', str ''b''])" by simp
  have r: "\<exists>s \<in> set (take 2 [str ''c'', str ''d'', str ''e'']).
      \<exists>err. crawlFailingAt (str ''d'') s = Throws err"
    by (simp add: crawlFailingAt_def)
  from scrapeOffers_rejection_stops_run [OF p e r] show ?thesis by simp
qed

lemma sampleCrawl_olx: "sampleCrawl (str ''olx'') = Throws UnrecognizedMonthPrefix"
proof -
  have "getSiteOffers sampleSite sampleConfig (olxSiteScraper sampleNow (str ''olx''))
     = Throws UnrecognizedMonthPrefix"
  proof -
    have s: "sampleSite (str ''olx'') = Returns samplePage1"
      "sampleSite (str ''olx&page=2'') = Returns samplePage2"
      by (simp_all add: sampleSite_def sample_urls_distinct)
    have "getSiteOffers sampleSite sampleConfig (olxSiteScraper sampleNow (str ''olx''))
        = getSiteOffers_loop sampleSite (olxSiteScraper sampleNow (str ''olx''))
            [makeAnnouncement [] (sampleAd ''dzisiaj 09:30'' ''a'') (str ''olx'') 0]
            (str ''olx&page=2'') [str ''olx&page=3''] 1"
      unfolding getSiteOffers_def
      by (subst getSiteOffers_loop.simps)
        (simp add: olxSiteScraper_def sampleConfig_def s samplePage1_ads samplePage1_next)
    also have "\<dots> = Throws UnrecognizedMonthPrefix"
      by (subst getSiteOffers_loop.simps) (simp add: olxSiteScraper_def s samplePage2_ads)
    finally show ?thesis .
  qed
  then show ?thesis by (simp add: sampleCrawl_def scrapeSiteOffers_def)
qed

text \<open>
  The claim as stated fails: the crawl of the sample site \<open>olx\<close> is rejected with the
  extraction error, \<open>scrapeOffers\<close> is rejected with it, and the sites \<open>c\<close> and \<open>d\<close> of the
  next pair are never launched.
\<close>

theorem scrapeOffers_uncaught_counterexample:
  "sampleCrawl (str ''olx'') = Throws UnrecognizedMonthPrefix
   \<and> scrapeOffers sampleCrawl [str ''a'', str ''olx'', str ''c'', str ''d'']
     = ([[str ''a'', str ''olx'']], Throws UnrecognizedMonthPrefix)"
proof -
  have a: "sampleCrawl (str ''a'') = Returns ()"
    by (simp add: sampleCrawl_def scrapeSiteOffers_def saveSiteOffers_def sampleFs_def
          validateOffers_def sampleConfig_def str_def)
  show ?thesis
    by (simp add: scrapeOffers_def scrapeOffers_loop_step sampleCrawl_olx a)
qed

end
